theory Spec2Isabelle
  imports Main
begin

section \<open>Strings and console output\<close>

text \<open>
  Python strings are modelled as \<^typ>\<open>string\<close>. The two non-ASCII characters of the
  source (the check mark and the ballot cross printed by \<open>create_bootimage.py\<close>) are given
  by their UTF-8 bytes, as they stand in the source file.
\<close>

definition backslash :: char where
  "backslash = CHR 0x5C"

definition check_mark :: string where
  "check_mark = [CHR 0xE2, CHR 0x9C, CHR 0x93]"

definition ballot_x :: string where
  "ballot_x = [CHR 0xE2, CHR 0x9C, CHR 0x97]"

text \<open>\<open>sep.join(xs)\<close> of Python.\<close>

fun join_str :: "string \<Rightarrow> string list \<Rightarrow> string" where
  "join_str sep [] = []"
| "join_str sep [x] = x"
| "join_str sep (x # y # ys) = x @ sep @ join_str sep (y # ys)"

text \<open>\<open>str(n)\<close> of a Python integer: decimal digits, a minus sign when negative.\<close>

fun str_nat :: "nat \<Rightarrow> string" where
  "str_nat n =
     (if n < 10 then [''0123456789'' ! n]
      else str_nat (n div 10) @ [''0123456789'' ! (n mod 10)])"

declare str_nat.simps [simp del]

definition str_int :: "int \<Rightarrow> string" where
  "str_int i = (if i < 0 then ''-'' @ str_nat (nat (- i)) else str_nat (nat i))"

text \<open>\<open>sub in s\<close> of Python on strings: \<open>sub\<close> occurs in \<open>s\<close> as a contiguous run.\<close>

fun starts_with :: "string \<Rightarrow> string \<Rightarrow> bool" where
  "starts_with [] s = True"
| "starts_with (c # cs) [] = False"
| "starts_with (c # cs) (d # ds) = (c = d \<and> starts_with cs ds)"

fun contains :: "string \<Rightarrow> string \<Rightarrow> bool" where
  "contains sub [] = (sub = [])"
| "contains sub (c # cs) = (starts_with sub (c # cs) \<or> contains sub cs)"

text \<open>Text that consists of ASCII characters only (no byte with the top bit set).\<close>

definition is_ascii :: "string \<Rightarrow> bool" where
  "is_ascii s = list_all (\<lambda>c. \<not> digit7 c) s"

section \<open>Paths\<close>

text \<open>
  A \<open>pathlib\<close> path is its anchor (drive and root, empty for a relative path) and the list
  of its components. The source builds paths from string literals only; each literal is
  given here as \<open>pathlib\<close> parses it. The two scripts run on either flavour of
  \<open>pathlib\<close>; the flavour decides the separator that \<open>str\<close> prints and how the
  literal \<open>c:\Users\jungamer64\Desktop\OS\<close> is parsed.
\<close>

datatype flavour = Posix | Windows

record ppath =
  anchor :: string
  parts :: "string list"

definition path_sep :: "flavour \<Rightarrow> string" where
  "path_sep fl = (case fl of Posix \<Rightarrow> ''/'' | Windows \<Rightarrow> [backslash])"

text \<open>\<open>str(p)\<close>: the anchor, then the components joined by the separator; \<open>.\<close> for the
  empty path.\<close>

definition str_path :: "flavour \<Rightarrow> ppath \<Rightarrow> string" where
  "str_path fl p =
     (if anchor p = [] \<and> parts p = [] then ''.''
      else anchor p @ join_str (path_sep fl) (parts p))"

text \<open>\<open>p / name\<close>, for a \<open>name\<close> that is one plain component (no separator, no drive),
  which is the only use the source makes of the operator.\<close>

definition joinpath :: "ppath \<Rightarrow> string \<Rightarrow> ppath" where
  "joinpath p name = p\<lparr>parts := parts p @ [name]\<rparr>"

text \<open>\<open>p.parent\<close>: the path without its last component; a path with no component is its
  own parent.\<close>

definition parent :: "ppath \<Rightarrow> ppath" where
  "parent p = (if parts p = [] then p else p\<lparr>parts := butlast (parts p)\<rparr>)"

section \<open>The world the scripts act on\<close>

text \<open>
  The file system maps a path, as the script names it, to what is found there.
  \<open>Path.exists()\<close> is true for a directory as well as for a regular file.
\<close>

datatype node = File string | Dir

type_synonym fs = "ppath \<rightharpoonup> node"

text \<open>
  What a script does to the outside, in the order it happens: a piece of text written to
  its standard output; a call of \<open>subprocess.run\<close> (command line and working directory);
  a child process that was started by such a call and has run to its exit; a call of
  \<open>Path.write_text\<close> (path and text).
\<close>

datatype event =
    Printed string
  | Run "string list" "ppath option"
  | Started "string list" "ppath option"
  | Wrote ppath string

record world =
  files :: fs
  trace :: "event list"

fun console :: "event list \<Rightarrow> string" where
  "console [] = []"
| "console (Printed s # es) = s @ console es"
| "console (e # es) = console es"

fun runs :: "event list \<Rightarrow> (string list \<times> ppath option) list" where
  "runs [] = []"
| "runs (Run c d # es) = (c, d) # runs es"
| "runs (e # es) = runs es"

fun launches :: "event list \<Rightarrow> (string list \<times> ppath option) list" where
  "launches [] = []"
| "launches (Started c d # es) = (c, d) # launches es"
| "launches (e # es) = launches es"

fun writes :: "event list \<Rightarrow> (ppath \<times> string) list" where
  "writes [] = []"
| "writes (Wrote p s # es) = (p, s) # writes es"
| "writes (e # es) = writes es"

text \<open>
  The exceptions that occur: \<open>subprocess.CalledProcessError\<close> (exit status, command,
  captured output and captured error output); \<open>OSError\<close> (a program that cannot be
  started, a working directory that is not there, a file that cannot be written);
  \<open>UnicodeDecodeError\<close> (captured output that is not text in the locale's encoding);
  \<open>UnicodeEncodeError\<close> (text that the encoding of standard output lacks); and
  \<open>SystemExit\<close>, raised by \<open>sys.exit\<close>.
\<close>

datatype exn =
    CalledProcessError int "string list" string string
  | OSError string
  | UnicodeDecodeError
  | UnicodeEncodeError
  | SystemExit int

record completed =
  returncode :: int
  stdout :: string
  stderr :: string

text \<open>
  The platform is what the scripts do not decide themselves: the \<open>pathlib\<close> flavour;
  what starting a command does (it cannot be started, or it runs, exits with a status and
  leaves a file system and its two output streams, each of which either decodes to text in
  the locale's encoding or does not); whether a text file can be written (and, when not,
  what is left at the path); which text beyond ASCII the encoding of standard output can
  encode; and the text of \<open>str(e)\<close> for an exception.
\<close>

datatype spawn_result =
    LaunchFailed string
  | Exited int "string option" "string option" fs

datatype write_result =
    WriteOk
  | WriteFailed string "node option"

record platform =
  flavour :: flavour
  spawn :: "string list \<Rightarrow> ppath option \<Rightarrow> fs \<Rightarrow> spawn_result"
  write_file :: "fs \<Rightarrow> ppath \<Rightarrow> string \<Rightarrow> write_result"
  stdout_encodes :: "string \<Rightarrow> bool"
  exc_str :: "exn \<Rightarrow> string"

text \<open>
  One \<open>sys.stdout.write(s)\<close>: the text is encoded when it is written. Every encoding of
  standard output encodes ASCII text; other text raises \<open>UnicodeEncodeError\<close> unless the
  platform's encoding has it.
\<close>

definition stdout_accepts :: "platform \<Rightarrow> string \<Rightarrow> bool" where
  "stdout_accepts pf s = (is_ascii s \<or> stdout_encodes pf s)"

fun write_stdout :: "platform \<Rightarrow> string list \<Rightarrow> world \<Rightarrow> (exn + unit) \<times> world" where
  "write_stdout pf [] w = (Inr (), w)"
| "write_stdout pf (s # ss) w =
     (if stdout_accepts pf s
      then write_stdout pf ss (w\<lparr>trace := trace w @ [Printed s]\<rparr>)
      else (Inl UnicodeEncodeError, w))"

text \<open>
  \<open>print(a, b, ...)\<close> writes its arguments one by one, a space before each but the
  first, then a newline; a write that fails ends it, with the earlier pieces written.
\<close>

fun print_pieces :: "string list \<Rightarrow> string list" where
  "print_pieces [] = [''\<newline>'']"
| "print_pieces [x] = [x, ''\<newline>'']"
| "print_pieces (x # y # ys) = x # '' '' # print_pieces (y # ys)"

definition py_print :: "platform \<Rightarrow> world \<Rightarrow> string list \<Rightarrow> (exn + unit) \<times> world" where
  "py_print pf w args = write_stdout pf (print_pieces args) w"

text \<open>One statement after another: an exception of the first ends the sequence.\<close>

definition and_then ::
  "(exn + 'a) \<times> world \<Rightarrow> ('a \<Rightarrow> world \<Rightarrow> (exn + 'b) \<times> world) \<Rightarrow> (exn + 'b) \<times> world" where
  "and_then m f = (case m of (Inl e, w) \<Rightarrow> (Inl e, w) | (Inr x, w) \<Rightarrow> f x w)"

definition exists_path :: "world \<Rightarrow> ppath \<Rightarrow> bool" where
  "exists_path w p = (files w p \<noteq> None)"

text \<open>
  \<open>subprocess.run(cmd, cwd=..., check=..., capture_output=True, text=True)\<close>: an
  \<open>OSError\<close>, with no child started, when the working directory given is not a directory
  or the command cannot be started; once the child has exited, a \<open>UnicodeDecodeError\<close>
  when one of its output streams does not decode; then, with \<open>check=True\<close>, a
  \<open>CalledProcessError\<close> when the exit status is not 0; the completed process otherwise.
\<close>

definition subprocess_run ::
  "platform \<Rightarrow> string list \<Rightarrow> ppath option \<Rightarrow> bool \<Rightarrow> world \<Rightarrow> (exn + completed) \<times> world" where
  "subprocess_run pf c cwd check w =
     (let w1 = w\<lparr>trace := trace w @ [Run c cwd]\<rparr>
      in if (case cwd of None \<Rightarrow> False | Some d \<Rightarrow> files w d \<noteq> Some Dir)
         then (Inl (OSError ''working directory''), w1)
         else
           (case spawn pf c cwd (files w) of
              LaunchFailed msg \<Rightarrow> (Inl (OSError msg), w1)
            | Exited rc out err fs' \<Rightarrow>
                (let w2 = w1\<lparr>files := fs', trace := trace w1 @ [Started c cwd]\<rparr>
                 in case (out, err) of
                      (Some out', Some err') \<Rightarrow>
                        (if check \<and> rc \<noteq> 0
                         then (Inl (CalledProcessError rc c out' err'), w2)
                         else (Inr \<lparr>returncode = rc, stdout = out', stderr = err'\<rparr>, w2))
                    | _ \<Rightarrow> (Inl UnicodeDecodeError, w2))))"

text \<open>\<open>p.write_text(s)\<close>: the file holds exactly \<open>s\<close> afterwards, or an \<open>OSError\<close>.\<close>

definition write_text :: "platform \<Rightarrow> ppath \<Rightarrow> string \<Rightarrow> world \<Rightarrow> (exn + unit) \<times> world" where
  "write_text pf p s w =
     (let w1 = w\<lparr>trace := trace w @ [Wrote p s]\<rparr>
      in case write_file pf (files w) p s of
           WriteOk \<Rightarrow> (Inr (), w1\<lparr>files := (files w)(p \<mapsto> File s)\<rparr>)
         | WriteFailed msg left \<Rightarrow> (Inl (OSError msg), w1\<lparr>files := (files w)(p := left)\<rparr>))"

text \<open>
  The exit status of the interpreter: 0 when the script runs to its end, the argument of
  \<open>sys.exit\<close>, and 1 when any other exception reaches the top level.
\<close>

fun exit_status :: "(exn + unit) \<times> world \<Rightarrow> int" where
  "exit_status (Inr u, w) = 0"
| "exit_status (Inl (SystemExit n), w) = n"
| "exit_status (Inl e, w) = 1"

section \<open>The image builder: \<open>create_bootimage.py\<close>\<close>

definition kernel_path :: ppath where
  "kernel_path = \<lparr>anchor = [], parts = [''target'', ''x86_64-blog_os'', ''debug'', ''tiny_os'']\<rparr>"

definition output_path :: ppath where
  "output_path =
     \<lparr>anchor = [], parts = [''target'', ''x86_64-blog_os'', ''debug'', ''tiny_os.efi.img'']\<rparr>"

definition build_cmd :: "flavour \<Rightarrow> string list" where
  "build_cmd fl =
     [''cargo'', ''builder'',
      ''--kernel-binary'', str_path fl kernel_path,
      ''--out-dir'', str_path fl (parent output_path)]"

definition main :: "platform \<Rightarrow> world \<Rightarrow> (exn + unit) \<times> world" where
  "main pf w =
     (if \<not> exists_path w kernel_path then
        and_then
          (py_print pf w [''Error: Kernel not found at '' @ str_path (flavour pf) kernel_path])
          (\<lambda>u w1. (Inl (SystemExit 1), w1))
      else
        and_then
          (py_print pf w
             [''Creating UEFI boot image from '' @ str_path (flavour pf) kernel_path])
          (\<lambda>u w1.
             case subprocess_run pf (build_cmd (flavour pf)) None True w1 of
               (Inl (CalledProcessError rc c out err), w2) \<Rightarrow>
                 and_then
                   (py_print pf w2
                      [''Error creating boot image: ''
                         @ exc_str pf (CalledProcessError rc c out err)])
                   (\<lambda>u w3. and_then (py_print pf w3 [err])
                   (\<lambda>u w4. (Inl (SystemExit 1), w4)))
             | (Inl e, w2) \<Rightarrow> (Inl e, w2)
             | (Inr result, w2) \<Rightarrow>
                 and_then (py_print pf w2 [stdout result])
                 (\<lambda>u w3.
                 and_then
                   (if stderr result \<noteq> []
                    then py_print pf w3 [''Warnings/Info:'', stderr result]
                    else (Inr (), w3))
                 (\<lambda>u w4.
                    if exists_path w4 output_path then
                      and_then
                        (py_print pf w4
                           [check_mark @ '' Boot image created: ''
                              @ str_path (flavour pf) output_path])
                        (\<lambda>u w5. (Inr (), w5))
                    else
                      and_then
                        (py_print pf w4 [ballot_x @ '' Boot image was not created''])
                        (\<lambda>u w5. (Inl (SystemExit 1), w5))))))"

section \<open>The boot capture runner: \<open>temp_qemu_capture.py\<close>\<close>

definition workspace :: "flavour \<Rightarrow> ppath" where
  "workspace fl =
     (case fl of
        Windows \<Rightarrow>
          \<lparr>anchor = ''c:'' @ [backslash],
           parts = [''Users'', ''jungamer64'', ''Desktop'', ''OS'']\<rparr>
      | Posix \<Rightarrow>
          \<lparr>anchor = [],
           parts = [''c:'' @ [backslash] @ ''Users'' @ [backslash] @ ''jungamer64''
                      @ [backslash] @ ''Desktop'' @ [backslash] @ ''OS'']\<rparr>)"

definition bin_path :: "flavour \<Rightarrow> ppath" where
  "bin_path fl =
     joinpath (joinpath (joinpath (joinpath (workspace fl) ''target'') ''x86_64-blog_os'')
       ''debug'') ''bootimage-tiny_os.bin''"

definition cmd :: "flavour \<Rightarrow> string list" where
  "cmd fl =
     [''qemu-system-x86_64'',
      ''-drive'', ''format=raw,file='' @ str_path fl (bin_path fl),
      ''-serial'', ''stdio'',
      ''-display'', ''none'',
      ''-m'', ''128M'',
      ''-no-reboot'',
      ''-no-shutdown'']"

text \<open>The target of the write, \<open>workspace / "serial.log"\<close>, and its text,
  \<open>proc.stdout + "\nSTDERR:\n" + proc.stderr\<close>.\<close>

definition serial_log :: "flavour \<Rightarrow> ppath" where
  "serial_log fl = joinpath (workspace fl) ''serial.log''"

definition log_text :: "string \<Rightarrow> string \<Rightarrow> string" where
  "log_text out err = out @ ''\<newline>STDERR:\<newline>'' @ err"

definition temp_qemu_capture :: "platform \<Rightarrow> world \<Rightarrow> (exn + unit) \<times> world" where
  "temp_qemu_capture pf w =
     (let fl = flavour pf
      in and_then (py_print pf w [''Running:'', join_str '' '' (cmd fl)])
         (\<lambda>u w1.
            case subprocess_run pf (cmd fl) (Some (workspace fl)) False w1 of
              (Inl e, w2) \<Rightarrow> (Inl e, w2)
            | (Inr proc, w2) \<Rightarrow>
                and_then (py_print pf w2 [''QEMU exited with'', str_int (returncode proc)])
                (\<lambda>u w3.
                   write_text pf (serial_log fl) (log_text (stdout proc) (stderr proc)) w3)))"

section \<open>Runs\<close>

text \<open>A run starts on a file system, with nothing printed, started or written yet.\<close>

definition start :: "fs \<Rightarrow> world" where
  "start fs0 = \<lparr>files = fs0, trace = []\<rparr>"

text \<open>The two lines the runner prints.\<close>

definition running_line :: "flavour \<Rightarrow> string" where
  "running_line fl = ''Running: '' @ join_str '' '' (cmd fl) @ ''\<newline>''"

definition exited_line :: "int \<Rightarrow> string" where
  "exited_line rc = ''QEMU exited with '' @ str_int rc @ ''\<newline>''"

text \<open>The same as the pieces that \<open>print\<close> writes.\<close>

definition line_events :: "string \<Rightarrow> event list" where
  "line_events s = [Printed s, Printed ''\<newline>'']"

definition running_events :: "flavour \<Rightarrow> event list" where
  "running_events fl =
     [Printed ''Running:'', Printed '' '', Printed (join_str '' '' (cmd fl)), Printed ''\<newline>'']"

definition exited_events :: "int \<Rightarrow> event list" where
  "exited_events rc =
     [Printed ''QEMU exited with'', Printed '' '', Printed (str_int rc), Printed ''\<newline>'']"

text \<open>The lines the image builder prints.\<close>

definition not_found_line :: "flavour \<Rightarrow> string" where
  "not_found_line fl = ''Error: Kernel not found at '' @ str_path fl kernel_path @ ''\<newline>''"

definition creating_line :: "flavour \<Rightarrow> string" where
  "creating_line fl = ''Creating UEFI boot image from '' @ str_path fl kernel_path @ ''\<newline>''"

definition creating_events :: "flavour \<Rightarrow> event list" where
  "creating_events fl =
     line_events (''Creating UEFI boot image from '' @ str_path fl kernel_path)"

definition warnings_line :: "string \<Rightarrow> string" where
  "warnings_line err = (if err \<noteq> [] then ''Warnings/Info: '' @ err @ ''\<newline>'' else [])"

definition warnings_events :: "string \<Rightarrow> event list" where
  "warnings_events err =
     (if err \<noteq> []
      then [Printed ''Warnings/Info:'', Printed '' '', Printed err, Printed ''\<newline>'']
      else [])"

definition created_text :: "flavour \<Rightarrow> string" where
  "created_text fl = check_mark @ '' Boot image created: '' @ str_path fl output_path"

definition not_created_text :: string where
  "not_created_text = ballot_x @ '' Boot image was not created''"

section \<open>Example platforms and file systems\<close>

text \<open>
  The text of \<open>str(e)\<close> for a \<open>CalledProcessError\<close> whose command consists of plain words
  (no quote, no backslash) and whose exit status is positive, as the example platforms
  need it.
\<close>

definition quote :: char where
  "quote = CHR 0x27"

definition repr_words :: "string list \<Rightarrow> string" where
  "repr_words ws = ''['' @ join_str '', '' (map (\<lambda>x. [quote] @ x @ [quote]) ws) @ '']''"

fun str_called_process_error :: "exn \<Rightarrow> string" where
  "str_called_process_error (CalledProcessError rc c out err) =
     ''Command '' @ [quote] @ repr_words c @ [quote]
       @ '' returned non-zero exit status '' @ str_int rc @ ''.''"
| "str_called_process_error e = []"

text \<open>
  Runner: an emulator that boots and prints \<open>BOOT OK\<close>; an emulator that finds no image
  and exits with status 1; an emulator whose output is not text in the locale's encoding;
  a log file that cannot be written; a machine without the emulator. File systems: the
  workspace directory alone; the workspace directory with the boot image in it.
\<close>

definition qemu_boots :: platform where
  "qemu_boots =
     \<lparr>flavour = Windows,
      spawn = (\<lambda>c d fs0. Exited 0 (Some ''BOOT OK\<newline>'') (Some []) fs0),
      write_file = (\<lambda>fs0 p s. WriteOk),
      stdout_encodes = (\<lambda>s. True),
      exc_str = str_called_process_error\<rparr>"

definition qemu_no_image :: platform where
  "qemu_no_image =
     \<lparr>flavour = Windows,
      spawn = (\<lambda>c d fs0. Exited 1 (Some []) (Some ''Could not open image'') fs0),
      write_file = (\<lambda>fs0 p s. WriteOk),
      stdout_encodes = (\<lambda>s. True),
      exc_str = str_called_process_error\<rparr>"

definition qemu_garbled :: platform where
  "qemu_garbled =
     \<lparr>flavour = Windows,
      spawn = (\<lambda>c d fs0. Exited 1 None (Some []) fs0),
      write_file = (\<lambda>fs0 p s. WriteOk),
      stdout_encodes = (\<lambda>s. True),
      exc_str = str_called_process_error\<rparr>"

definition log_unwritable :: platform where
  "log_unwritable =
     \<lparr>flavour = Windows,
      spawn = (\<lambda>c d fs0. Exited 0 (Some ''BOOT OK\<newline>'') (Some []) fs0),
      write_file = (\<lambda>fs0 p s. WriteFailed ''Permission denied'' (fs0 p)),
      stdout_encodes = (\<lambda>s. True),
      exc_str = str_called_process_error\<rparr>"

definition no_qemu :: platform where
  "no_qemu =
     \<lparr>flavour = Windows,
      spawn = (\<lambda>c d fs0. LaunchFailed ''The system cannot find the file specified''),
      write_file = (\<lambda>fs0 p s. WriteOk),
      stdout_encodes = (\<lambda>s. True),
      exc_str = str_called_process_error\<rparr>"

definition workspace_only :: fs where
  "workspace_only = [workspace Windows \<mapsto> Dir]"

definition workspace_with_image :: fs where
  "workspace_with_image = [workspace Windows \<mapsto> Dir, bin_path Windows \<mapsto> File ''image'']"

text \<open>
  Builder: a tool that writes the image and exits with status 0; a tool that exits with
  status 0 and writes nothing; a tool that exits with status 101; a tool whose error output
  is not text in the locale's encoding; a machine without \<open>cargo\<close>; and a standard output
  that encodes ASCII only. File systems: the kernel is there as a file; there is a
  directory where the kernel should be.
\<close>

definition builder_ok :: platform where
  "builder_ok =
     \<lparr>flavour = Posix,
      spawn = (\<lambda>c d fs0. Exited 0 (Some ''Created disk image'') (Some [])
                 (fs0(output_path \<mapsto> File ''image''))),
      write_file = (\<lambda>fs0 p s. WriteOk),
      stdout_encodes = (\<lambda>s. True),
      exc_str = str_called_process_error\<rparr>"

definition builder_silent :: platform where
  "builder_silent =
     \<lparr>flavour = Posix,
      spawn = (\<lambda>c d fs0. Exited 0 (Some []) (Some []) fs0),
      write_file = (\<lambda>fs0 p s. WriteOk),
      stdout_encodes = (\<lambda>s. True),
      exc_str = str_called_process_error\<rparr>"

definition builder_fails :: platform where
  "builder_fails =
     \<lparr>flavour = Posix,
      spawn = (\<lambda>c d fs0. Exited 101 (Some []) (Some ''error: no such command'') fs0),
      write_file = (\<lambda>fs0 p s. WriteOk),
      stdout_encodes = (\<lambda>s. True),
      exc_str = str_called_process_error\<rparr>"

definition builder_garbled :: platform where
  "builder_garbled =
     \<lparr>flavour = Posix,
      spawn = (\<lambda>c d fs0. Exited 101 (Some []) None fs0),
      write_file = (\<lambda>fs0 p s. WriteOk),
      stdout_encodes = (\<lambda>s. True),
      exc_str = str_called_process_error\<rparr>"

definition no_cargo :: platform where
  "no_cargo =
     \<lparr>flavour = Posix,
      spawn = (\<lambda>c d fs0. LaunchFailed ''No such file or directory''),
      write_file = (\<lambda>fs0 p s. WriteOk),
      stdout_encodes = (\<lambda>s. True),
      exc_str = str_called_process_error\<rparr>"

definition ascii_stdout :: "platform \<Rightarrow> platform" where
  "ascii_stdout pf = pf\<lparr>stdout_encodes := (\<lambda>s. False)\<rparr>"

definition kernel_built :: fs where
  "kernel_built = [kernel_path \<mapsto> File ''ELF'']"

definition kernel_is_dir :: fs where
  "kernel_is_dir = [kernel_path \<mapsto> Dir]"

section \<open>Printing, and the events of a run\<close>

lemma is_ascii_Nil [simp]: "is_ascii []"
  by (simp add: is_ascii_def)

lemma is_ascii_Cons [simp]: "is_ascii (c # s) = (\<not> digit7 c \<and> is_ascii s)"
  by (simp add: is_ascii_def)

lemma is_ascii_append [simp]: "is_ascii (a @ b) = (is_ascii a \<and> is_ascii b)"
  by (simp add: is_ascii_def)

lemma digit_is_ascii: "n < 10 \<Longrightarrow> \<not> digit7 (''0123456789'' ! n)"
proof -
  assume "n < 10"
  then have "n \<in> {0, 1, 2, 3, 4, 5, 6, 7, 8, 9}"
    by auto
  then show ?thesis
    by auto
qed

lemma is_ascii_str_nat: "is_ascii (str_nat n)"
proof (induction n rule: str_nat.induct)
  case (1 n)
  show ?case
  proof (cases "n < 10")
    case True
    then show ?thesis
      by (subst str_nat.simps) (simp add: digit_is_ascii)
  next
    case False
    have "n mod 10 < 10" by simp
    then have "\<not> digit7 (''0123456789'' ! (n mod 10))"
      by (rule digit_is_ascii)
    then show ?thesis
      using False 1 by (subst str_nat.simps) simp
  qed
qed

lemma is_ascii_str_int: "is_ascii (str_int i)"
  by (simp add: str_int_def is_ascii_str_nat)

lemma is_ascii_kernel_path: "is_ascii (str_path fl kernel_path)"
  by (cases fl) (simp_all add: str_path_def kernel_path_def path_sep_def backslash_def)

lemma is_ascii_cmd: "is_ascii (join_str '' '' (cmd fl))"
  by (cases fl)
    (simp_all add: cmd_def bin_path_def workspace_def joinpath_def str_path_def path_sep_def
      backslash_def)

lemma accepts_ascii: "is_ascii s \<Longrightarrow> stdout_accepts pf s"
  by (simp add: stdout_accepts_def)

lemma accepts_newline: "stdout_accepts pf ''\<newline>''"
  by (simp add: stdout_accepts_def)

lemma accepts_space: "stdout_accepts pf '' ''"
  by (simp add: stdout_accepts_def)

lemma py_print_one:
  "py_print pf w [s] =
     (if stdout_accepts pf s
      then (Inr (), w\<lparr>trace := trace w @ [Printed s, Printed ''\<newline>'']\<rparr>)
      else (Inl UnicodeEncodeError, w))"
  by (simp add: py_print_def accepts_newline)

lemma py_print_two:
  "is_ascii a \<Longrightarrow>
   py_print pf w [a, b] =
     (if stdout_accepts pf b
      then (Inr (), w\<lparr>trace := trace w @ [Printed a, Printed '' '', Printed b, Printed ''\<newline>'']\<rparr>)
      else (Inl UnicodeEncodeError, w\<lparr>trace := trace w @ [Printed a, Printed '' '']\<rparr>))"
  by (simp add: py_print_def accepts_newline accepts_space accepts_ascii)

lemma runs_append [simp]: "runs (xs @ ys) = runs xs @ runs ys"
  by (induction xs rule: runs.induct) simp_all

lemma launches_append [simp]: "launches (xs @ ys) = launches xs @ launches ys"
  by (induction xs rule: launches.induct) simp_all

lemma writes_append [simp]: "writes (xs @ ys) = writes xs @ writes ys"
  by (induction xs rule: writes.induct) simp_all

lemma console_append [simp]: "console (xs @ ys) = console xs @ console ys"
  by (induction xs rule: console.induct) simp_all

lemma running_events_simps [simp]:
  "console (running_events fl) = running_line fl"
  "runs (running_events fl) = []"
  "launches (running_events fl) = []"
  "writes (running_events fl) = []"
  by (simp_all add: running_events_def running_line_def)

lemma exited_events_simps [simp]:
  "console (exited_events rc) = exited_line rc"
  "runs (exited_events rc) = []"
  "launches (exited_events rc) = []"
  "writes (exited_events rc) = []"
  by (simp_all add: exited_events_def exited_line_def)

section \<open>The boot capture runner: properties\<close>

lemma running_printed:
  "py_print pf (start fs0) [''Running:'', join_str '' '' (cmd (flavour pf))] =
     (Inr (), \<lparr>files = fs0, trace = running_events (flavour pf)\<rparr>)"
proof -
  have a: "is_ascii ''Running:''"
    by simp
  show ?thesis
    by (simp add: py_print_two [OF a] accepts_ascii [OF is_ascii_cmd] start_def
        running_events_def)
qed

lemma capture_no_workspace:
  assumes "fs0 (workspace (flavour pf)) \<noteq> Some Dir"
  shows "temp_qemu_capture pf (start fs0) =
           (Inl (OSError ''working directory''),
            \<lparr>files = fs0,
             trace = running_events (flavour pf)
                       @ [Run (cmd (flavour pf)) (Some (workspace (flavour pf)))]\<rparr>)"
  using assms
  by (simp add: temp_qemu_capture_def running_printed and_then_def subprocess_run_def Let_def)

lemma capture_launch_failed:
  assumes "fs0 (workspace (flavour pf)) = Some Dir"
    and "spawn pf (cmd (flavour pf)) (Some (workspace (flavour pf))) fs0 = LaunchFailed msg"
  shows "temp_qemu_capture pf (start fs0) =
           (Inl (OSError msg),
            \<lparr>files = fs0,
             trace = running_events (flavour pf)
                       @ [Run (cmd (flavour pf)) (Some (workspace (flavour pf)))]\<rparr>)"
  using assms
  by (simp add: temp_qemu_capture_def running_printed and_then_def subprocess_run_def Let_def)

lemma capture_undecodable:
  assumes "fs0 (workspace (flavour pf)) = Some Dir"
    and "spawn pf (cmd (flavour pf)) (Some (workspace (flavour pf))) fs0 = Exited rc out err fs1"
    and "out = None \<or> err = None"
  shows "temp_qemu_capture pf (start fs0) =
           (Inl UnicodeDecodeError,
            \<lparr>files = fs1,
             trace = running_events (flavour pf)
                       @ [Run (cmd (flavour pf)) (Some (workspace (flavour pf))),
                          Started (cmd (flavour pf)) (Some (workspace (flavour pf)))]\<rparr>)"
  using assms
  by (auto simp add: temp_qemu_capture_def running_printed and_then_def subprocess_run_def
      Let_def split: option.splits)

lemma capture_exited:
  assumes "fs0 (workspace (flavour pf)) = Some Dir"
    and "spawn pf (cmd (flavour pf)) (Some (workspace (flavour pf))) fs0
           = Exited rc (Some out) (Some err) fs1"
  shows "temp_qemu_capture pf (start fs0) =
           write_text pf (serial_log (flavour pf)) (log_text out err)
            \<lparr>files = fs1,
             trace = running_events (flavour pf)
                       @ [Run (cmd (flavour pf)) (Some (workspace (flavour pf))),
                          Started (cmd (flavour pf)) (Some (workspace (flavour pf)))]
                       @ exited_events rc\<rparr>"
proof -
  have a: "is_ascii ''QEMU exited with''"
    by simp
  show ?thesis
    using assms
    by (simp add: temp_qemu_capture_def running_printed and_then_def subprocess_run_def Let_def
        py_print_two [OF a] accepts_ascii [OF is_ascii_str_int] exited_events_def)
qed

lemma write_text_trace:
  "trace (snd (write_text pf p s w)) = trace w @ [Wrote p s]"
  by (simp add: write_text_def Let_def split: write_result.split)

lemma write_text_ok:
  "write_file pf (files w) p s = WriteOk \<Longrightarrow>
   write_text pf p s w = (Inr (), \<lparr>files = (files w)(p \<mapsto> File s), trace = trace w @ [Wrote p s]\<rparr>)"
  by (simp add: write_text_def Let_def)

lemma write_text_failed:
  "write_file pf (files w) p s = WriteFailed msg left \<Longrightarrow>
   write_text pf p s w = (Inl (OSError msg), \<lparr>files = (files w)(p := left), trace = trace w @ [Wrote p s]\<rparr>)"
  by (simp add: write_text_def Let_def)

lemma write_text_frame:
  "q \<noteq> p \<Longrightarrow> files (snd (write_text pf p s w)) q = files w q"
  by (simp add: write_text_def Let_def split: write_result.split)

lemma write_text_status:
  "exit_status (write_text pf p s w) = (if write_file pf (files w) p s = WriteOk then 0 else 1)"
  by (simp add: write_text_def Let_def split: write_result.split)

text \<open>
  C1: whenever the emulator is started in the workspace and its output is captured, whatever
  its exit status, the one text handed to the capture log is the captured standard output,
  then the line \<open>STDERR:\<close> between two newlines, then the captured standard error, and that
  is what the log file holds once the write succeeds; for output \<open>BOOT OK\<close> with a newline
  and no error output it is \<open>BOOT OK\<close>, an empty line and \<open>STDERR:\<close>.
\<close>
theorem capture_log_text:
  assumes "fs0 (workspace (flavour pf)) = Some Dir"
    and "spawn pf (cmd (flavour pf)) (Some (workspace (flavour pf))) fs0
           = Exited rc (Some out) (Some err) fs1"
  shows "writes (trace (snd (temp_qemu_capture pf (start fs0))))
           = [(serial_log (flavour pf), out @ ''\<newline>STDERR:\<newline>'' @ err)]
       \<and> (write_file pf fs1 (serial_log (flavour pf)) (out @ ''\<newline>STDERR:\<newline>'' @ err) = WriteOk
            \<longrightarrow> files (snd (temp_qemu_capture pf (start fs0))) (serial_log (flavour pf))
                  = Some (File (out @ ''\<newline>STDERR:\<newline>'' @ err)))
       \<and> log_text ''BOOT OK\<newline>'' [] = ''BOOT OK\<newline>\<newline>STDERR:\<newline>''"
proof -
  have t: "log_text out err = out @ ''\<newline>STDERR:\<newline>'' @ err"
    by (simp add: log_text_def)
  have "writes (trace (snd (temp_qemu_capture pf (start fs0))))
          = [(serial_log (flavour pf), out @ ''\<newline>STDERR:\<newline>'' @ err)]"
    using assms by (simp add: capture_exited write_text_trace t)
  moreover have "write_file pf fs1 (serial_log (flavour pf)) (out @ ''\<newline>STDERR:\<newline>'' @ err) = WriteOk
            \<longrightarrow> files (snd (temp_qemu_capture pf (start fs0))) (serial_log (flavour pf))
                  = Some (File (out @ ''\<newline>STDERR:\<newline>'' @ err))"
    using assms by (simp add: capture_exited write_text_ok t)
  moreover have "log_text ''BOOT OK\<newline>'' [] = ''BOOT OK\<newline>\<newline>STDERR:\<newline>''"
    by (simp add: log_text_def)
  ultimately show ?thesis by blast
qed

theorem capture_log_text_witness:
  "workspace_with_image (workspace (flavour qemu_boots)) = Some Dir
   \<and> spawn qemu_boots (cmd (flavour qemu_boots)) (Some (workspace (flavour qemu_boots)))
       workspace_with_image = Exited 0 (Some ''BOOT OK\<newline>'') (Some []) workspace_with_image
   \<and> writes (trace (snd (temp_qemu_capture qemu_boots (start workspace_with_image))))
       = [(serial_log Windows, ''BOOT OK\<newline>\<newline>STDERR:\<newline>'')]
   \<and> files (snd (temp_qemu_capture qemu_boots (start workspace_with_image))) (serial_log Windows)
       = Some (File ''BOOT OK\<newline>\<newline>STDERR:\<newline>'')"
proof -
  have d: "workspace_with_image (workspace (flavour qemu_boots)) = Some Dir"
    by (simp add: workspace_with_image_def qemu_boots_def bin_path_def joinpath_def
        workspace_def)
  have h: "spawn qemu_boots (cmd (flavour qemu_boots)) (Some (workspace (flavour qemu_boots)))
       workspace_with_image = Exited 0 (Some ''BOOT OK\<newline>'') (Some []) workspace_with_image"
    by (simp add: qemu_boots_def)
  show ?thesis
    using d h capture_log_text [of workspace_with_image qemu_boots 0 "''BOOT OK\<newline>''" "[]"
        workspace_with_image]
    by (simp add: qemu_boots_def)
qed

text \<open>
  C9, as stated, fails: an emulator that is started and exits, but whose output is not text
  in the locale's encoding, makes \<open>subprocess.run\<close> raise after the exit; the status line
  is not printed, no capture log is written and the run ends with exit status 1.
\<close>
theorem garbled_output_counterexample:
  "launches (trace (snd (temp_qemu_capture qemu_garbled (start workspace_with_image))))
     = [(cmd Windows, Some (workspace Windows))]
   \<and> fst (temp_qemu_capture qemu_garbled (start workspace_with_image)) = Inl UnicodeDecodeError
   \<and> exit_status (temp_qemu_capture qemu_garbled (start workspace_with_image)) = 1
   \<and> writes (trace (snd (temp_qemu_capture qemu_garbled (start workspace_with_image)))) = []
   \<and> console (trace (snd (temp_qemu_capture qemu_garbled (start workspace_with_image))))
       = running_line Windows
   \<and> files (snd (temp_qemu_capture qemu_garbled (start workspace_with_image))) (serial_log Windows)
       = None"
proof -
  have d: "workspace_with_image (workspace (flavour qemu_garbled)) = Some Dir"
    by (simp add: workspace_with_image_def qemu_garbled_def bin_path_def joinpath_def
        workspace_def)
  have h: "spawn qemu_garbled (cmd (flavour qemu_garbled))
       (Some (workspace (flavour qemu_garbled))) workspace_with_image
       = Exited 1 None (Some []) workspace_with_image"
    by (simp add: qemu_garbled_def)
  have f: "flavour qemu_garbled = Windows"
    by (simp add: qemu_garbled_def)
  have n: "workspace_with_image (serial_log Windows) = None"
    by (simp add: workspace_with_image_def serial_log_def bin_path_def joinpath_def
        workspace_def)
  show ?thesis
    using capture_undecodable [OF d h] n by (simp add: f)
qed

text \<open>
  C9, amended: whenever the emulator is started and exits, with any exit status, and its
  output is captured, the status is only printed (the line \<open>QEMU exited with\<close> and the
  status); the capture log is still handed to the file system, and whether the run fails
  depends on that write alone, never on the emulator's status: once the write succeeds the
  run ends normally with exit status 0.
\<close>
theorem exit_status_informational:
  assumes "fs0 (workspace (flavour pf)) = Some Dir"
    and "spawn pf (cmd (flavour pf)) (Some (workspace (flavour pf))) fs0
           = Exited rc (Some out) (Some err) fs1"
  shows "console (trace (snd (temp_qemu_capture pf (start fs0))))
           = running_line (flavour pf) @ ''QEMU exited with '' @ str_int rc @ ''\<newline>''
       \<and> writes (trace (snd (temp_qemu_capture pf (start fs0))))
           = [(serial_log (flavour pf), log_text out err)]
       \<and> exit_status (temp_qemu_capture pf (start fs0))
           = (if write_file pf fs1 (serial_log (flavour pf)) (log_text out err) = WriteOk
              then 0 else 1)
       \<and> (write_file pf fs1 (serial_log (flavour pf)) (log_text out err) = WriteOk
            \<longrightarrow> fst (temp_qemu_capture pf (start fs0)) = Inr ()
              \<and> files (snd (temp_qemu_capture pf (start fs0))) (serial_log (flavour pf))
                  = Some (File (log_text out err)))"
  using assms
  by (simp add: capture_exited write_text_trace write_text_status write_text_ok
      exited_line_def)

theorem exit_status_informational_witness:
  "workspace_only (workspace (flavour qemu_no_image)) = Some Dir
   \<and> spawn qemu_no_image (cmd (flavour qemu_no_image)) (Some (workspace (flavour qemu_no_image)))
      workspace_only = Exited 1 (Some []) (Some ''Could not open image'') workspace_only
   \<and> exit_status (temp_qemu_capture qemu_no_image (start workspace_only)) = 0
   \<and> console (trace (snd (temp_qemu_capture qemu_no_image (start workspace_only))))
       = running_line Windows @ ''QEMU exited with 1\<newline>''
   \<and> files (snd (temp_qemu_capture qemu_no_image (start workspace_only))) (serial_log Windows)
       = Some (File ''\<newline>STDERR:\<newline>Could not open image'')"
proof -
  have d: "workspace_only (workspace (flavour qemu_no_image)) = Some Dir"
    by (simp add: workspace_only_def qemu_no_image_def)
  have h: "spawn qemu_no_image (cmd (flavour qemu_no_image))
      (Some (workspace (flavour qemu_no_image))) workspace_only
      = Exited 1 (Some []) (Some ''Could not open image'') workspace_only"
    by (simp add: qemu_no_image_def)
  have s: "str_int 1 = ''1''"
    by (simp add: str_int_def str_nat.simps)
  show ?thesis
    using d h s exit_status_informational [of workspace_only qemu_no_image 1 "[]"
        "''Could not open image''" workspace_only]
    by (simp add: qemu_no_image_def log_text_def)
qed

text \<open>
  C2, as stated, fails: with the workspace directory there and no boot image in it, the
  runner still starts the emulator and, here, ends with exit status 0.
\<close>
theorem missing_image_not_checked_counterexample:
  "workspace_only (workspace Windows) = Some Dir
   \<and> workspace_only (bin_path Windows) = None
   \<and> launches (trace (snd (temp_qemu_capture qemu_no_image (start workspace_only))))
       = [(cmd Windows, Some (workspace Windows))]
   \<and> fst (temp_qemu_capture qemu_no_image (start workspace_only)) = Inr ()
   \<and> exit_status (temp_qemu_capture qemu_no_image (start workspace_only)) = 0"
proof -
  have d: "workspace_only (workspace (flavour qemu_no_image)) = Some Dir"
    by (simp add: workspace_only_def qemu_no_image_def)
  have h: "spawn qemu_no_image (cmd (flavour qemu_no_image))
      (Some (workspace (flavour qemu_no_image))) workspace_only
      = Exited 1 (Some []) (Some ''Could not open image'') workspace_only"
    by (simp add: qemu_no_image_def)
  have w: "write_file qemu_no_image workspace_only (serial_log (flavour qemu_no_image))
      (log_text [] ''Could not open image'') = WriteOk"
    by (simp add: qemu_no_image_def)
  have f: "flavour qemu_no_image = Windows"
    by (simp add: qemu_no_image_def)
  have n: "workspace_only (bin_path Windows) = None"
    by (simp add: workspace_only_def bin_path_def joinpath_def workspace_def)
  show ?thesis
    using d n w by (simp add: capture_exited [OF d h] write_text_ok f)
qed

text \<open>
  C2, amended: the runner does not look at the boot-image path. When there is nothing at
  that path it calls \<open>subprocess.run\<close> for the emulator all the same, once; the emulator is
  started whenever the workspace is a directory and the platform can start the command;
  and the run ends with exit status 0 whenever the emulator exits (with any status), its
  output is captured and the log can be written.
\<close>
theorem missing_image_still_launches:
  assumes "fs0 (bin_path (flavour pf)) = None"
  shows "runs (trace (snd (temp_qemu_capture pf (start fs0))))
           = [(cmd (flavour pf), Some (workspace (flavour pf)))]
       \<and> (\<forall>rc out err fs1.
            fs0 (workspace (flavour pf)) = Some Dir
            \<and> spawn pf (cmd (flavour pf)) (Some (workspace (flavour pf))) fs0
                = Exited rc out err fs1
            \<longrightarrow> launches (trace (snd (temp_qemu_capture pf (start fs0))))
                  = [(cmd (flavour pf), Some (workspace (flavour pf)))])
       \<and> (\<forall>rc out err fs1.
            fs0 (workspace (flavour pf)) = Some Dir
            \<and> spawn pf (cmd (flavour pf)) (Some (workspace (flavour pf))) fs0
                = Exited rc (Some out) (Some err) fs1
            \<and> write_file pf fs1 (serial_log (flavour pf)) (log_text out err) = WriteOk
            \<longrightarrow> fst (temp_qemu_capture pf (start fs0)) = Inr ()
              \<and> exit_status (temp_qemu_capture pf (start fs0)) = 0)"
proof -
  have r: "runs (trace (snd (temp_qemu_capture pf (start fs0))))
           = [(cmd (flavour pf), Some (workspace (flavour pf)))]"
  proof (cases "fs0 (workspace (flavour pf)) = Some Dir")
    case False
    then show ?thesis
      by (simp add: capture_no_workspace)
  next
    case True
    show ?thesis
    proof (cases "spawn pf (cmd (flavour pf)) (Some (workspace (flavour pf))) fs0")
      case (LaunchFailed msg)
      then show ?thesis
        using True by (simp add: capture_launch_failed)
    next
      case (Exited rc out err fs1)
      show ?thesis
      proof (cases "out = None \<or> err = None")
        case True
        then show ?thesis
          using \<open>fs0 (workspace (flavour pf)) = Some Dir\<close> Exited
          by (simp add: capture_undecodable)
      next
        case False
        then obtain out' err' where "out = Some out'" "err = Some err'"
          by auto
        then show ?thesis
          using True Exited by (simp add: capture_exited write_text_trace)
      qed
    qed
  qed
  have l: "\<forall>rc out err fs1.
            fs0 (workspace (flavour pf)) = Some Dir
            \<and> spawn pf (cmd (flavour pf)) (Some (workspace (flavour pf))) fs0
                = Exited rc out err fs1
            \<longrightarrow> launches (trace (snd (temp_qemu_capture pf (start fs0))))
                  = [(cmd (flavour pf), Some (workspace (flavour pf)))]"
  proof (intro allI impI)
    fix rc out err fs1
    assume a: "fs0 (workspace (flavour pf)) = Some Dir
            \<and> spawn pf (cmd (flavour pf)) (Some (workspace (flavour pf))) fs0
                = Exited rc out err fs1"
    show "launches (trace (snd (temp_qemu_capture pf (start fs0))))
                  = [(cmd (flavour pf), Some (workspace (flavour pf)))]"
    proof (cases "out = None \<or> err = None")
      case True
      then show ?thesis
        using a by (simp add: capture_undecodable)
    next
      case False
      then obtain out' err' where "out = Some out'" "err = Some err'"
        by auto
      then show ?thesis
        using a by (simp add: capture_exited write_text_trace)
    qed
  qed
  have e: "\<forall>rc out err fs1.
            fs0 (workspace (flavour pf)) = Some Dir
            \<and> spawn pf (cmd (flavour pf)) (Some (workspace (flavour pf))) fs0
                = Exited rc (Some out) (Some err) fs1
            \<and> write_file pf fs1 (serial_log (flavour pf)) (log_text out err) = WriteOk
            \<longrightarrow> fst (temp_qemu_capture pf (start fs0)) = Inr ()
              \<and> exit_status (temp_qemu_capture pf (start fs0)) = 0"
    by (simp add: capture_exited write_text_ok)
  from r l e show ?thesis by blast
qed

theorem missing_image_still_launches_witness:
  "workspace_only (bin_path (flavour qemu_boots)) = None
   \<and> workspace_only (workspace (flavour qemu_boots)) = Some Dir
   \<and> runs (trace (snd (temp_qemu_capture qemu_boots (start workspace_only))))
       = [(cmd Windows, Some (workspace Windows))]
   \<and> launches (trace (snd (temp_qemu_capture qemu_boots (start workspace_only))))
       = [(cmd Windows, Some (workspace Windows))]
   \<and> exit_status (temp_qemu_capture qemu_boots (start workspace_only)) = 0"
proof -
  have f: "flavour qemu_boots = Windows"
    by (simp add: qemu_boots_def)
  have h: "workspace_only (bin_path (flavour qemu_boots)) = None"
    by (simp add: f workspace_only_def bin_path_def joinpath_def workspace_def)
  have e: "workspace_only (workspace (flavour qemu_boots)) = Some Dir
     \<and> spawn qemu_boots (cmd (flavour qemu_boots)) (Some (workspace (flavour qemu_boots)))
      workspace_only = Exited 0 (Some ''BOOT OK\<newline>'') (Some []) workspace_only
     \<and> write_file qemu_boots workspace_only (serial_log (flavour qemu_boots))
         (log_text ''BOOT OK\<newline>'' []) = WriteOk"
    by (simp add: qemu_boots_def workspace_only_def)
  from missing_image_still_launches [of workspace_only qemu_boots] h e
  have "runs (trace (snd (temp_qemu_capture qemu_boots (start workspace_only))))
       = [(cmd (flavour qemu_boots), Some (workspace (flavour qemu_boots)))]
     \<and> launches (trace (snd (temp_qemu_capture qemu_boots (start workspace_only))))
       = [(cmd (flavour qemu_boots), Some (workspace (flavour qemu_boots)))]
     \<and> exit_status (temp_qemu_capture qemu_boots (start workspace_only)) = 0"
    by blast
  then show ?thesis
    using h e by (simp add: f)
qed

text \<open>
  C6, as stated, fails: the emulator runs in the workspace and prints \<open>BOOT OK\<close>, the log
  cannot be written, and the run dies of the \<open>OSError\<close> of the write; what it has printed is
  the \<open>Running:\<close> line and the \<open>QEMU exited with\<close> line, the captured output is in no
  report and in no file.
\<close>
theorem log_write_failure_counterexample:
  "workspace_with_image (workspace Windows) = Some Dir
   \<and> launches (trace (snd (temp_qemu_capture log_unwritable (start workspace_with_image))))
       = [(cmd Windows, Some (workspace Windows))]
   \<and> writes (trace (snd (temp_qemu_capture log_unwritable (start workspace_with_image))))
       = [(serial_log Windows, ''BOOT OK\<newline>\<newline>STDERR:\<newline>'')]
   \<and> fst (temp_qemu_capture log_unwritable (start workspace_with_image))
       = Inl (OSError ''Permission denied'')
   \<and> console (trace (snd (temp_qemu_capture log_unwritable (start workspace_with_image))))
       = running_line Windows @ ''QEMU exited with 0\<newline>''
   \<and> \<not> contains ''BOOT OK''
         (console (trace (snd (temp_qemu_capture log_unwritable (start workspace_with_image)))))
   \<and> files (snd (temp_qemu_capture log_unwritable (start workspace_with_image)))
         (serial_log Windows) = None"
proof -
  have f: "flavour log_unwritable = Windows"
    by (simp add: log_unwritable_def)
  have d: "workspace_with_image (workspace (flavour log_unwritable)) = Some Dir"
    by (simp add: f workspace_with_image_def bin_path_def joinpath_def workspace_def)
  have h: "spawn log_unwritable (cmd (flavour log_unwritable))
       (Some (workspace (flavour log_unwritable))) workspace_with_image
       = Exited 0 (Some ''BOOT OK\<newline>'') (Some []) workspace_with_image"
    by (simp add: log_unwritable_def)
  have n: "workspace_with_image (serial_log Windows) = None"
    by (simp add: workspace_with_image_def serial_log_def bin_path_def joinpath_def
        workspace_def)
  have w: "write_file log_unwritable workspace_with_image (serial_log (flavour log_unwritable))
      (log_text ''BOOT OK\<newline>'' []) = WriteFailed ''Permission denied'' None"
    by (simp add: log_unwritable_def f n)
  have s: "exited_line 0 = ''QEMU exited with 0\<newline>''"
    by (simp add: exited_line_def str_int_def str_nat.simps)
  have c: "\<not> contains ''BOOT OK'' (running_line Windows @ ''QEMU exited with 0\<newline>'')"
    by (simp add: running_line_def cmd_def bin_path_def workspace_def joinpath_def
        str_path_def path_sep_def backslash_def)
  show ?thesis
    using d n c w
    by (simp add: capture_exited [OF d h] write_text_failed f s log_text_def)
qed

text \<open>
  C6, amended: when the emulator has exited, its output is captured and the log cannot be
  written, the run terminates with failure (exit status 1) through the unhandled \<open>OSError\<close>
  of the write, which carries the platform's message only; the runner has printed the
  \<open>Running:\<close> line and the \<open>QEMU exited with\<close> line and nothing of the captured output.
\<close>
theorem log_write_failure:
  assumes "fs0 (workspace (flavour pf)) = Some Dir"
    and "spawn pf (cmd (flavour pf)) (Some (workspace (flavour pf))) fs0
           = Exited rc (Some out) (Some err) fs1"
    and "write_file pf fs1 (serial_log (flavour pf)) (log_text out err) = WriteFailed msg left"
  shows "fst (temp_qemu_capture pf (start fs0)) = Inl (OSError msg)
       \<and> exit_status (temp_qemu_capture pf (start fs0)) = 1
       \<and> console (trace (snd (temp_qemu_capture pf (start fs0))))
           = running_line (flavour pf) @ exited_line rc"
  using assms
  by (simp add: capture_exited write_text_failed)

theorem log_write_failure_witness:
  "workspace_with_image (workspace (flavour log_unwritable)) = Some Dir
   \<and> spawn log_unwritable (cmd (flavour log_unwritable)) (Some (workspace (flavour log_unwritable)))
      workspace_with_image = Exited 0 (Some ''BOOT OK\<newline>'') (Some []) workspace_with_image
   \<and> write_file log_unwritable workspace_with_image (serial_log (flavour log_unwritable))
       (log_text ''BOOT OK\<newline>'' []) = WriteFailed ''Permission denied'' None
   \<and> exit_status (temp_qemu_capture log_unwritable (start workspace_with_image)) = 1
   \<and> console (trace (snd (temp_qemu_capture log_unwritable (start workspace_with_image))))
           = running_line Windows @ exited_line 0"
proof -
  have f: "flavour log_unwritable = Windows"
    by (simp add: log_unwritable_def)
  have d: "workspace_with_image (workspace (flavour log_unwritable)) = Some Dir"
    by (simp add: f workspace_with_image_def bin_path_def joinpath_def workspace_def)
  have h: "spawn log_unwritable (cmd (flavour log_unwritable))
       (Some (workspace (flavour log_unwritable))) workspace_with_image
       = Exited 0 (Some ''BOOT OK\<newline>'') (Some []) workspace_with_image"
    by (simp add: log_unwritable_def)
  have n: "workspace_with_image (serial_log Windows) = None"
    by (simp add: workspace_with_image_def serial_log_def bin_path_def joinpath_def
        workspace_def)
  have w: "write_file log_unwritable workspace_with_image (serial_log (flavour log_unwritable))
      (log_text ''BOOT OK\<newline>'' []) = WriteFailed ''Permission denied'' None"
    by (simp add: log_unwritable_def f n)
  show ?thesis
    using d h w log_write_failure [of workspace_with_image log_unwritable 0 "''BOOT OK\<newline>''"
        "[]" workspace_with_image "''Permission denied''" None]
    by (simp add: f)
qed

text \<open>
  C10, as stated for every run, fails: where the emulator cannot be started the runner
  writes nothing at all.
\<close>
theorem one_write_counterexample:
  "workspace_with_image (workspace Windows) = Some Dir
   \<and> writes (trace (snd (temp_qemu_capture no_qemu (start workspace_with_image)))) = []
   \<and> fst (temp_qemu_capture no_qemu (start workspace_with_image))
       = Inl (OSError ''The system cannot find the file specified'')"
proof -
  have f: "flavour no_qemu = Windows"
    by (simp add: no_qemu_def)
  have d: "workspace_with_image (workspace (flavour no_qemu)) = Some Dir"
    by (simp add: f workspace_with_image_def bin_path_def joinpath_def workspace_def)
  have h: "spawn no_qemu (cmd (flavour no_qemu)) (Some (workspace (flavour no_qemu)))
       workspace_with_image = LaunchFailed ''The system cannot find the file specified''"
    by (simp add: no_qemu_def)
  show ?thesis
    using d by (simp add: capture_launch_failed [OF d h] f)
qed

text \<open>
  C10, amended: the runner writes at most once. It writes nothing, and leaves the file system
  as it was, when the workspace is not a directory or the emulator cannot be started; it
  writes nothing, and leaves the file system as the emulator left it, when the emulator's
  output does not decode. When the emulator has exited and its output is captured, the run
  is exactly: print, call and start the emulator, print, write the capture log; the write is
  the last step and the only one, and every path other than the capture log holds what the
  emulator left there.
\<close>
theorem only_write_is_the_log:
  "(fs0 (workspace (flavour pf)) \<noteq> Some Dir
      \<longrightarrow> writes (trace (snd (temp_qemu_capture pf (start fs0)))) = []
        \<and> files (snd (temp_qemu_capture pf (start fs0))) = fs0)
   \<and> (\<forall>msg. fs0 (workspace (flavour pf)) = Some Dir
        \<and> spawn pf (cmd (flavour pf)) (Some (workspace (flavour pf))) fs0 = LaunchFailed msg
      \<longrightarrow> writes (trace (snd (temp_qemu_capture pf (start fs0)))) = []
        \<and> files (snd (temp_qemu_capture pf (start fs0))) = fs0)
   \<and> (\<forall>rc out err fs1. fs0 (workspace (flavour pf)) = Some Dir
        \<and> spawn pf (cmd (flavour pf)) (Some (workspace (flavour pf))) fs0 = Exited rc out err fs1
        \<and> (out = None \<or> err = None)
      \<longrightarrow> writes (trace (snd (temp_qemu_capture pf (start fs0)))) = []
        \<and> files (snd (temp_qemu_capture pf (start fs0))) = fs1)
   \<and> (\<forall>rc out err fs1. fs0 (workspace (flavour pf)) = Some Dir
        \<and> spawn pf (cmd (flavour pf)) (Some (workspace (flavour pf))) fs0
            = Exited rc (Some out) (Some err) fs1
      \<longrightarrow> trace (snd (temp_qemu_capture pf (start fs0)))
            = running_events (flavour pf)
                @ [Run (cmd (flavour pf)) (Some (workspace (flavour pf))),
                   Started (cmd (flavour pf)) (Some (workspace (flavour pf)))]
                @ exited_events rc
                @ [Wrote (serial_log (flavour pf)) (log_text out err)]
        \<and> writes (trace (snd (temp_qemu_capture pf (start fs0))))
            = [(serial_log (flavour pf), log_text out err)]
        \<and> (\<forall>p. p \<noteq> serial_log (flavour pf)
              \<longrightarrow> files (snd (temp_qemu_capture pf (start fs0))) p = fs1 p))"
  by (simp add: capture_no_workspace capture_launch_failed capture_undecodable capture_exited
      write_text_trace write_text_frame)

theorem only_write_is_the_log_witness:
  "trace (snd (temp_qemu_capture qemu_boots (start workspace_with_image)))
     = running_events Windows
         @ [Run (cmd Windows) (Some (workspace Windows)),
            Started (cmd Windows) (Some (workspace Windows))]
         @ exited_events 0
         @ [Wrote (serial_log Windows) ''BOOT OK\<newline>\<newline>STDERR:\<newline>'']
   \<and> files (snd (temp_qemu_capture qemu_boots (start workspace_with_image))) (bin_path Windows)
       = Some (File ''image'')
   \<and> writes (trace (snd (temp_qemu_capture no_qemu (start workspace_with_image)))) = []
   \<and> writes (trace (snd (temp_qemu_capture qemu_garbled (start workspace_with_image)))) = []
   \<and> writes (trace (snd (temp_qemu_capture qemu_boots (start Map.empty)))) = []"
proof -
  have d: "workspace_with_image (workspace Windows) = Some Dir"
    by (simp add: workspace_with_image_def bin_path_def joinpath_def workspace_def)
  have i: "workspace_with_image (bin_path Windows) = Some (File ''image'')"
    by (simp add: workspace_with_image_def)
  have ne: "bin_path Windows \<noteq> serial_log Windows"
    by (simp add: bin_path_def serial_log_def joinpath_def workspace_def)
  have fb: "flavour qemu_boots = Windows" and fn: "flavour no_qemu = Windows"
    and fg: "flavour qemu_garbled = Windows"
    by (simp_all add: qemu_boots_def no_qemu_def qemu_garbled_def)
  have hb: "spawn qemu_boots (cmd Windows) (Some (workspace Windows)) workspace_with_image
      = Exited 0 (Some ''BOOT OK\<newline>'') (Some []) workspace_with_image"
    by (simp add: qemu_boots_def)
  have hn: "spawn no_qemu (cmd Windows) (Some (workspace Windows)) workspace_with_image
      = LaunchFailed ''The system cannot find the file specified''"
    by (simp add: no_qemu_def)
  have hg: "spawn qemu_garbled (cmd Windows) (Some (workspace Windows)) workspace_with_image
      = Exited 1 None (Some []) workspace_with_image"
    by (simp add: qemu_garbled_def)
  have a: "trace (snd (temp_qemu_capture qemu_boots (start workspace_with_image)))
     = running_events Windows
         @ [Run (cmd Windows) (Some (workspace Windows)),
            Started (cmd Windows) (Some (workspace Windows))]
         @ exited_events 0
         @ [Wrote (serial_log Windows) (log_text ''BOOT OK\<newline>'' [])]
     \<and> (\<forall>p. p \<noteq> serial_log Windows
          \<longrightarrow> files (snd (temp_qemu_capture qemu_boots (start workspace_with_image))) p
                = workspace_with_image p)"
    using only_write_is_the_log [of workspace_with_image qemu_boots] d hb
    unfolding fb by blast
  have b: "writes (trace (snd (temp_qemu_capture no_qemu (start workspace_with_image)))) = []"
    using only_write_is_the_log [of workspace_with_image no_qemu] d hn
    unfolding fn by blast
  have c: "writes (trace (snd (temp_qemu_capture qemu_garbled (start workspace_with_image)))) = []"
    using only_write_is_the_log [of workspace_with_image qemu_garbled] d hg
    unfolding fg by blast
  have e: "writes (trace (snd (temp_qemu_capture qemu_boots (start Map.empty)))) = []"
    using only_write_is_the_log [of Map.empty qemu_boots]
    unfolding fb by simp
  show ?thesis
    using a b c e i ne by (simp add: log_text_def)
qed

section \<open>The image builder: properties\<close>

lemma line_events_simps [simp]:
  "console (line_events s) = s @ ''\<newline>''"
  "runs (line_events s) = []"
  "launches (line_events s) = []"
  "writes (line_events s) = []"
  by (simp_all add: line_events_def)

lemma warnings_events_simps [simp]:
  "console (warnings_events err) = warnings_line err"
  "runs (warnings_events err) = []"
  "launches (warnings_events err) = []"
  "writes (warnings_events err) = []"
  by (simp_all add: warnings_events_def warnings_line_def)

lemma main_kernel_missing:
  assumes "fs0 kernel_path = None"
  shows "main pf (start fs0) =
           (Inl (SystemExit 1),
            \<lparr>files = fs0,
             trace = line_events (''Error: Kernel not found at ''
                        @ str_path (flavour pf) kernel_path)\<rparr>)"
proof -
  have "stdout_accepts pf (''Error: Kernel not found at '' @ str_path (flavour pf) kernel_path)"
    by (rule accepts_ascii) (simp add: is_ascii_kernel_path)
  then show ?thesis
    using assms
    by (simp add: main_def exists_path_def py_print_one and_then_def start_def line_events_def)
qed

lemma creating_printed:
  "py_print pf (start fs0)
     [''Creating UEFI boot image from '' @ str_path (flavour pf) kernel_path]
   = (Inr (), \<lparr>files = fs0, trace = creating_events (flavour pf)\<rparr>)"
proof -
  have "stdout_accepts pf
          (''Creating UEFI boot image from '' @ str_path (flavour pf) kernel_path)"
    by (rule accepts_ascii) (simp add: is_ascii_kernel_path)
  then show ?thesis
    by (simp add: py_print_one start_def creating_events_def line_events_def)
qed

lemma creating_events_simps [simp]:
  "console (creating_events fl) = creating_line fl"
  "runs (creating_events fl) = []"
  "launches (creating_events fl) = []"
  "writes (creating_events fl) = []"
  by (simp_all add: creating_events_def creating_line_def)

lemma main_launch_failed:
  assumes "fs0 kernel_path \<noteq> None"
    and "spawn pf (build_cmd (flavour pf)) None fs0 = LaunchFailed msg"
  shows "main pf (start fs0) =
           (Inl (OSError msg),
            \<lparr>files = fs0,
             trace = creating_events (flavour pf) @ [Run (build_cmd (flavour pf)) None]\<rparr>)"
  using assms creating_printed [of pf fs0]
  by (simp add: main_def exists_path_def and_then_def subprocess_run_def
      Let_def start_def)

lemma main_undecodable:
  assumes "fs0 kernel_path \<noteq> None"
    and "spawn pf (build_cmd (flavour pf)) None fs0 = Exited rc out err fs1"
    and "out = None \<or> err = None"
  shows "main pf (start fs0) =
           (Inl UnicodeDecodeError,
            \<lparr>files = fs1,
             trace = creating_events (flavour pf)
                       @ [Run (build_cmd (flavour pf)) None,
                          Started (build_cmd (flavour pf)) None]\<rparr>)"
  using assms creating_printed [of pf fs0]
  by (auto simp add: main_def exists_path_def and_then_def subprocess_run_def
      Let_def start_def split: option.splits)

lemma main_tool_failed:
  assumes "fs0 kernel_path \<noteq> None"
    and "spawn pf (build_cmd (flavour pf)) None fs0 = Exited rc (Some out) (Some err) fs1"
    and "rc \<noteq> 0"
  shows "main pf (start fs0) =
           (if \<not> stdout_accepts pf (''Error creating boot image: ''
                  @ exc_str pf (CalledProcessError rc (build_cmd (flavour pf)) out err))
            then (Inl UnicodeEncodeError,
                  \<lparr>files = fs1,
                   trace = creating_events (flavour pf)
                             @ [Run (build_cmd (flavour pf)) None,
                                Started (build_cmd (flavour pf)) None]\<rparr>)
            else if \<not> stdout_accepts pf err
            then (Inl UnicodeEncodeError,
                  \<lparr>files = fs1,
                   trace = creating_events (flavour pf)
                             @ [Run (build_cmd (flavour pf)) None,
                                Started (build_cmd (flavour pf)) None]
                             @ line_events (''Error creating boot image: ''
                                 @ exc_str pf
                                     (CalledProcessError rc (build_cmd (flavour pf)) out err))\<rparr>)
            else (Inl (SystemExit 1),
                  \<lparr>files = fs1,
                   trace = creating_events (flavour pf)
                             @ [Run (build_cmd (flavour pf)) None,
                                Started (build_cmd (flavour pf)) None]
                             @ line_events (''Error creating boot image: ''
                                 @ exc_str pf
                                     (CalledProcessError rc (build_cmd (flavour pf)) out err))
                             @ line_events err\<rparr>))"
  using assms creating_printed [of pf fs0]
  by (simp add: main_def exists_path_def and_then_def subprocess_run_def
      Let_def start_def py_print_one line_events_def)

lemma main_tool_ok:
  assumes "fs0 kernel_path \<noteq> None"
    and "spawn pf (build_cmd (flavour pf)) None fs0 = Exited 0 (Some out) (Some err) fs1"
  shows "main pf (start fs0) =
           (if \<not> stdout_accepts pf out
            then (Inl UnicodeEncodeError,
                  \<lparr>files = fs1,
                   trace = creating_events (flavour pf)
                             @ [Run (build_cmd (flavour pf)) None,
                                Started (build_cmd (flavour pf)) None]\<rparr>)
            else if err \<noteq> [] \<and> \<not> stdout_accepts pf err
            then (Inl UnicodeEncodeError,
                  \<lparr>files = fs1,
                   trace = creating_events (flavour pf)
                             @ [Run (build_cmd (flavour pf)) None,
                                Started (build_cmd (flavour pf)) None]
                             @ line_events out
                             @ [Printed ''Warnings/Info:'', Printed '' '']\<rparr>)
            else if fs1 output_path \<noteq> None
            then (if stdout_accepts pf (created_text (flavour pf))
                  then (Inr (),
                        \<lparr>files = fs1,
                         trace = creating_events (flavour pf)
                                   @ [Run (build_cmd (flavour pf)) None,
                                      Started (build_cmd (flavour pf)) None]
                                   @ line_events out @ warnings_events err
                                   @ line_events (created_text (flavour pf))\<rparr>)
                  else (Inl UnicodeEncodeError,
                        \<lparr>files = fs1,
                         trace = creating_events (flavour pf)
                                   @ [Run (build_cmd (flavour pf)) None,
                                      Started (build_cmd (flavour pf)) None]
                                   @ line_events out @ warnings_events err\<rparr>))
            else (if stdout_accepts pf not_created_text
                  then (Inl (SystemExit 1),
                        \<lparr>files = fs1,
                         trace = creating_events (flavour pf)
                                   @ [Run (build_cmd (flavour pf)) None,
                                      Started (build_cmd (flavour pf)) None]
                                   @ line_events out @ warnings_events err
                                   @ line_events not_created_text\<rparr>)
                  else (Inl UnicodeEncodeError,
                        \<lparr>files = fs1,
                         trace = creating_events (flavour pf)
                                   @ [Run (build_cmd (flavour pf)) None,
                                      Started (build_cmd (flavour pf)) None]
                                   @ line_events out @ warnings_events err\<rparr>)))"
proof -
  have a: "is_ascii ''Warnings/Info:''"
    by simp
  show ?thesis
    using assms creating_printed [of pf fs0]
    by (simp add: main_def exists_path_def and_then_def subprocess_run_def
        Let_def start_def py_print_one py_print_two [OF a] line_events_def warnings_events_def
        created_text_def not_created_text_def)
qed

lemma starts_with_append: "starts_with s (s @ t)"
  by (induction s) simp_all

lemma contains_append: "contains s (pre @ s @ post)"
proof (induction pre)
  case Nil
  show ?case
  proof (cases "s @ post")
    case Nil
    then show ?thesis by simp
  next
    case (Cons a list)
    have "starts_with s (s @ post)"
      by (rule starts_with_append)
    then show ?thesis
      by (simp add: Cons)
  qed
next
  case (Cons c pre)
  then show ?case by simp
qed

lemma kernel_built_facts:
  "kernel_built kernel_path \<noteq> None"
  "kernel_built output_path = None"
  by (simp_all add: kernel_built_def kernel_path_def output_path_def)

text \<open>
  C3, as stated, fails: with a directory at the kernel path (no regular file there) the
  builder goes on and starts the external tool.
\<close>
theorem kernel_directory_counterexample:
  "kernel_is_dir kernel_path = Some Dir
   \<and> runs (trace (snd (main builder_fails (start kernel_is_dir)))) = [(build_cmd Posix, None)]
   \<and> launches (trace (snd (main builder_fails (start kernel_is_dir))))
       = [(build_cmd Posix, None)]
   \<and> console (trace (snd (main builder_fails (start kernel_is_dir))))
       = creating_line Posix
           @ ''Error creating boot image: ''
           @ str_called_process_error
               (CalledProcessError 101 (build_cmd Posix) [] ''error: no such command'')
           @ ''\<newline>error: no such command\<newline>''"
proof -
  have f: "flavour builder_fails = Posix"
    by (simp add: builder_fails_def)
  have k: "kernel_is_dir kernel_path \<noteq> None"
    by (simp add: kernel_is_dir_def)
  have h: "spawn builder_fails (build_cmd (flavour builder_fails)) None kernel_is_dir
      = Exited 101 (Some []) (Some ''error: no such command'') kernel_is_dir"
    by (simp add: builder_fails_def)
  have e: "stdout_encodes builder_fails = (\<lambda>s. True)"
    and x: "exc_str builder_fails = str_called_process_error"
    by (simp_all add: builder_fails_def)
  have m: "main builder_fails (start kernel_is_dir)
      = (Inl (SystemExit 1),
         \<lparr>files = kernel_is_dir,
          trace = creating_events Posix
                    @ [Run (build_cmd Posix) None, Started (build_cmd Posix) None]
                    @ line_events (''Error creating boot image: ''
                        @ str_called_process_error
                            (CalledProcessError 101 (build_cmd Posix) []
                               ''error: no such command''))
                    @ line_events ''error: no such command''\<rparr>)"
    using main_tool_failed [OF k h] by (simp add: f x stdout_accepts_def e)
  have d: "kernel_is_dir kernel_path = Some Dir"
    by (simp add: kernel_is_dir_def)
  show ?thesis
    using d by (simp add: m)
qed

text \<open>
  C3, amended: when nothing exists at the kernel path (\<open>Path.exists()\<close> is false), the run
  fails at once through \<open>sys.exit(1)\<close>, exit status 1, having printed only the line
  \<open>Error: Kernel not found at\<close> followed by the kernel path, without starting any subprocess
  and without touching the file system.
\<close>
theorem missing_kernel_fails_early:
  assumes "fs0 kernel_path = None"
  shows "fst (main pf (start fs0)) = Inl (SystemExit 1)
       \<and> exit_status (main pf (start fs0)) = 1
       \<and> console (trace (snd (main pf (start fs0))))
           = ''Error: Kernel not found at '' @ str_path (flavour pf) kernel_path @ ''\<newline>''
       \<and> contains (str_path (flavour pf) kernel_path) (console (trace (snd (main pf (start fs0)))))
       \<and> runs (trace (snd (main pf (start fs0)))) = []
       \<and> files (snd (main pf (start fs0))) = fs0"
proof -
  have c: "contains (str_path (flavour pf) kernel_path)
             (''Error: Kernel not found at '' @ str_path (flavour pf) kernel_path @ ''\<newline>'')"
    by (rule contains_append)
  show ?thesis
    using c assms by (simp add: main_kernel_missing)
qed

theorem missing_kernel_fails_early_witness:
  "Map.empty kernel_path = None
   \<and> exit_status (main builder_ok (start Map.empty)) = 1
   \<and> console (trace (snd (main builder_ok (start Map.empty))))
       = ''Error: Kernel not found at target/x86_64-blog_os/debug/tiny_os\<newline>''
   \<and> runs (trace (snd (main builder_ok (start Map.empty)))) = []"
proof -
  have h: "Map.empty kernel_path = None"
    by simp
  show ?thesis
    using h missing_kernel_fails_early [of Map.empty builder_ok]
    by (simp add: builder_ok_def str_path_def kernel_path_def path_sep_def)
qed

text \<open>
  C4, as stated, fails: on a standard output that encodes ASCII only, the tool exits with
  status 0, writes no image, and the builder dies of the \<open>UnicodeEncodeError\<close> of its last
  \<open>print\<close> (the ballot cross): the report that the boot image was not created never appears.
\<close>
theorem silent_failure_unprintable_counterexample:
  "kernel_built kernel_path \<noteq> None
   \<and> spawn (ascii_stdout builder_silent) (build_cmd Posix) None kernel_built
       = Exited 0 (Some []) (Some []) kernel_built
   \<and> kernel_built output_path = None
   \<and> fst (main (ascii_stdout builder_silent) (start kernel_built)) = Inl UnicodeEncodeError
   \<and> console (trace (snd (main (ascii_stdout builder_silent) (start kernel_built))))
       = creating_line Posix @ ''\<newline>''
   \<and> \<not> contains ''Boot image was not created''
         (console (trace (snd (main (ascii_stdout builder_silent) (start kernel_built)))))"
proof -
  have f: "flavour (ascii_stdout builder_silent) = Posix"
    by (simp add: builder_silent_def ascii_stdout_def)
  have h: "spawn (ascii_stdout builder_silent) (build_cmd (flavour (ascii_stdout builder_silent)))
      None kernel_built = Exited 0 (Some []) (Some []) kernel_built"
    by (simp add: builder_silent_def ascii_stdout_def)
  have n: "\<not> stdout_accepts (ascii_stdout builder_silent) not_created_text"
    by (simp add: stdout_accepts_def ascii_stdout_def not_created_text_def ballot_x_def)
  have a: "stdout_accepts (ascii_stdout builder_silent) []"
    by (simp add: stdout_accepts_def)
  have m: "main (ascii_stdout builder_silent) (start kernel_built)
      = (Inl UnicodeEncodeError,
         \<lparr>files = kernel_built,
          trace = creating_events Posix
                    @ [Run (build_cmd Posix) None, Started (build_cmd Posix) None]
                    @ line_events [] @ warnings_events []\<rparr>)"
    using main_tool_ok [OF kernel_built_facts(1) h] n a
    by (simp add: f kernel_built_facts)
  have c: "\<not> contains ''Boot image was not created'' (creating_line Posix @ ''\<newline>'')"
    by (simp add: creating_line_def str_path_def kernel_path_def path_sep_def)
  show ?thesis
    using h c by (simp add: m kernel_built_facts warnings_line_def f)
qed

text \<open>
  C4, amended: when the kernel path exists, the external tool exits with status 0 and the
  image path does not exist afterwards, the run never ends in success: its exit status is 1.
  When moreover the tool's output decodes and standard output can encode what is printed
  (the tool's output, its warnings, the line with the ballot cross), the run ends through
  \<open>sys.exit(1)\<close> and its last line is the report that the boot image was not created.
\<close>
theorem silent_failure_reported:
  assumes "fs0 kernel_path \<noteq> None"
    and "spawn pf (build_cmd (flavour pf)) None fs0 = Exited 0 out err fs1"
    and "fs1 output_path = None"
  shows "exit_status (main pf (start fs0)) = 1
       \<and> fst (main pf (start fs0)) \<noteq> Inr ()
       \<and> (\<forall>out' err'.
            out = Some out' \<and> err = Some err'
            \<and> stdout_accepts pf out' \<and> (err' \<noteq> [] \<longrightarrow> stdout_accepts pf err')
            \<and> stdout_accepts pf (ballot_x @ '' Boot image was not created'')
            \<longrightarrow> fst (main pf (start fs0)) = Inl (SystemExit 1)
              \<and> console (trace (snd (main pf (start fs0))))
                  = creating_line (flavour pf) @ out' @ ''\<newline>'' @ warnings_line err'
                      @ ballot_x @ '' Boot image was not created\<newline>'')"
proof (cases "out = None \<or> err = None")
  case True
  then show ?thesis
    using main_undecodable [OF assms(1,2)] by auto
next
  case False
  then obtain out' err' where s: "out = Some out'" "err = Some err'"
    by auto
  have h: "spawn pf (build_cmd (flavour pf)) None fs0 = Exited 0 (Some out') (Some err') fs1"
    using assms(2) s by simp
  show ?thesis
    using assms(3) s
    by (simp add: main_tool_ok [OF assms(1) h] not_created_text_def)
qed

theorem silent_failure_reported_witness:
  "kernel_built kernel_path \<noteq> None
   \<and> spawn builder_silent (build_cmd (flavour builder_silent)) None kernel_built
       = Exited 0 (Some []) (Some []) kernel_built
   \<and> kernel_built output_path = None
   \<and> exit_status (main builder_silent (start kernel_built)) = 1
   \<and> console (trace (snd (main builder_silent (start kernel_built))))
       = creating_line Posix @ ''\<newline>'' @ ballot_x @ '' Boot image was not created\<newline>''"
proof -
  have h2: "spawn builder_silent (build_cmd (flavour builder_silent)) None kernel_built
       = Exited 0 (Some []) (Some []) kernel_built"
    by (simp add: builder_silent_def)
  have a: "stdout_accepts builder_silent []
     \<and> stdout_accepts builder_silent (ballot_x @ '' Boot image was not created'')"
    by (simp add: stdout_accepts_def builder_silent_def)
  have "exit_status (main builder_silent (start kernel_built)) = 1
     \<and> console (trace (snd (main builder_silent (start kernel_built))))
         = creating_line (flavour builder_silent) @ [] @ ''\<newline>'' @ warnings_line []
             @ ballot_x @ '' Boot image was not created\<newline>''"
    using silent_failure_reported [of kernel_built builder_silent "Some []" "Some []"
        kernel_built] kernel_built_facts h2 a
    by blast
  then show ?thesis
    using kernel_built_facts h2 by (simp add: builder_silent_def warnings_line_def)
qed

text \<open>
  C5, as stated, fails where the external tool cannot be started: the \<open>OSError\<close> is not
  handled, no line \<open>Error creating boot image\<close> is printed and there is no captured
  standard error to report.
\<close>
theorem launch_failure_counterexample:
  "kernel_built kernel_path \<noteq> None
   \<and> spawn no_cargo (build_cmd Posix) None kernel_built = LaunchFailed ''No such file or directory''
   \<and> launches (trace (snd (main no_cargo (start kernel_built)))) = []
   \<and> fst (main no_cargo (start kernel_built)) = Inl (OSError ''No such file or directory'')
   \<and> console (trace (snd (main no_cargo (start kernel_built))))
       = ''Creating UEFI boot image from target/x86_64-blog_os/debug/tiny_os\<newline>''
   \<and> \<not> contains ''Error creating boot image''
         (console (trace (snd (main no_cargo (start kernel_built)))))"
proof -
  have f: "flavour no_cargo = Posix"
    by (simp add: no_cargo_def)
  have h: "spawn no_cargo (build_cmd (flavour no_cargo)) None kernel_built
      = LaunchFailed ''No such file or directory''"
    by (simp add: no_cargo_def)
  have l: "creating_line Posix
      = ''Creating UEFI boot image from target/x86_64-blog_os/debug/tiny_os\<newline>''"
    by (simp add: creating_line_def str_path_def kernel_path_def path_sep_def)
  have c: "\<not> contains ''Error creating boot image''
      ''Creating UEFI boot image from target/x86_64-blog_os/debug/tiny_os\<newline>''"
    by simp
  show ?thesis
    using h c kernel_built_facts
    by (simp add: main_launch_failed [OF kernel_built_facts(1) h] f l)
qed

text \<open>
  C5, amended: when the external tool exits with a status other than 0, the run ends with
  exit status 1. When moreover its output decodes and standard output can encode the two
  lines, the builder prints \<open>Error creating boot image:\<close> with the text of the exception,
  then the tool's captured standard error, and ends through \<open>sys.exit(1)\<close>. When the output
  does not decode, the run dies of the \<open>UnicodeDecodeError\<close>; when the tool cannot be
  started, of the \<open>OSError\<close>, with exit status 1; in both cases nothing is printed after the
  \<open>Creating UEFI boot image\<close> line.
\<close>
theorem tool_failure_reported:
  assumes "fs0 kernel_path \<noteq> None"
  shows "(\<forall>rc out err fs1.
            spawn pf (build_cmd (flavour pf)) None fs0 = Exited rc out err fs1 \<and> rc \<noteq> 0
            \<longrightarrow> exit_status (main pf (start fs0)) = 1)
       \<and> (\<forall>rc out err fs1.
            spawn pf (build_cmd (flavour pf)) None fs0 = Exited rc (Some out) (Some err) fs1
            \<and> rc \<noteq> 0
            \<and> stdout_accepts pf (''Error creating boot image: ''
                 @ exc_str pf (CalledProcessError rc (build_cmd (flavour pf)) out err))
            \<and> stdout_accepts pf err
            \<longrightarrow> fst (main pf (start fs0)) = Inl (SystemExit 1)
              \<and> console (trace (snd (main pf (start fs0))))
                  = creating_line (flavour pf) @ ''Error creating boot image: ''
                      @ exc_str pf (CalledProcessError rc (build_cmd (flavour pf)) out err)
                      @ ''\<newline>'' @ err @ ''\<newline>'')
       \<and> (\<forall>rc out err fs1.
            spawn pf (build_cmd (flavour pf)) None fs0 = Exited rc out err fs1
            \<and> (out = None \<or> err = None)
            \<longrightarrow> fst (main pf (start fs0)) = Inl UnicodeDecodeError
              \<and> console (trace (snd (main pf (start fs0)))) = creating_line (flavour pf))
       \<and> (\<forall>msg.
            spawn pf (build_cmd (flavour pf)) None fs0 = LaunchFailed msg
            \<longrightarrow> fst (main pf (start fs0)) = Inl (OSError msg)
              \<and> exit_status (main pf (start fs0)) = 1
              \<and> console (trace (snd (main pf (start fs0)))) = creating_line (flavour pf))"
proof -
  have a: "\<forall>rc out err fs1.
            spawn pf (build_cmd (flavour pf)) None fs0 = Exited rc out err fs1 \<and> rc \<noteq> 0
            \<longrightarrow> exit_status (main pf (start fs0)) = 1"
  proof (intro allI impI)
    fix rc out err fs1
    assume h: "spawn pf (build_cmd (flavour pf)) None fs0 = Exited rc out err fs1 \<and> rc \<noteq> 0"
    show "exit_status (main pf (start fs0)) = 1"
    proof (cases "out = None \<or> err = None")
      case True
      then show ?thesis
        using assms h by (simp add: main_undecodable)
    next
      case False
      then obtain out' err' where "out = Some out'" "err = Some err'"
        by auto
      then show ?thesis
        using assms h by (simp add: main_tool_failed)
    qed
  qed
  have b: "\<forall>rc out err fs1.
            spawn pf (build_cmd (flavour pf)) None fs0 = Exited rc (Some out) (Some err) fs1
            \<and> rc \<noteq> 0
            \<and> stdout_accepts pf (''Error creating boot image: ''
                 @ exc_str pf (CalledProcessError rc (build_cmd (flavour pf)) out err))
            \<and> stdout_accepts pf err
            \<longrightarrow> fst (main pf (start fs0)) = Inl (SystemExit 1)
              \<and> console (trace (snd (main pf (start fs0))))
                  = creating_line (flavour pf) @ ''Error creating boot image: ''
                      @ exc_str pf (CalledProcessError rc (build_cmd (flavour pf)) out err)
                      @ ''\<newline>'' @ err @ ''\<newline>''"
  proof (intro allI impI)
    fix rc out err fs1
    assume h: "spawn pf (build_cmd (flavour pf)) None fs0 = Exited rc (Some out) (Some err) fs1
            \<and> rc \<noteq> 0
            \<and> stdout_accepts pf (''Error creating boot image: ''
                 @ exc_str pf (CalledProcessError rc (build_cmd (flavour pf)) out err))
            \<and> stdout_accepts pf err"
    then have m: "main pf (start fs0)
        = (Inl (SystemExit 1),
           \<lparr>files = fs1,
            trace = creating_events (flavour pf)
                      @ [Run (build_cmd (flavour pf)) None,
                         Started (build_cmd (flavour pf)) None]
                      @ line_events (''Error creating boot image: ''
                          @ exc_str pf (CalledProcessError rc (build_cmd (flavour pf)) out err))
                      @ line_events err\<rparr>)"
      using main_tool_failed [of fs0 pf rc out err fs1] assms by presburger
    show "fst (main pf (start fs0)) = Inl (SystemExit 1)
              \<and> console (trace (snd (main pf (start fs0))))
                  = creating_line (flavour pf) @ ''Error creating boot image: ''
                      @ exc_str pf (CalledProcessError rc (build_cmd (flavour pf)) out err)
                      @ ''\<newline>'' @ err @ ''\<newline>''"
      by (simp add: m)
  qed
  have c: "\<forall>rc out err fs1.
            spawn pf (build_cmd (flavour pf)) None fs0 = Exited rc out err fs1
            \<and> (out = None \<or> err = None)
            \<longrightarrow> fst (main pf (start fs0)) = Inl UnicodeDecodeError
              \<and> console (trace (snd (main pf (start fs0)))) = creating_line (flavour pf)"
    using assms by (simp add: main_undecodable)
  have d: "\<forall>msg.
            spawn pf (build_cmd (flavour pf)) None fs0 = LaunchFailed msg
            \<longrightarrow> fst (main pf (start fs0)) = Inl (OSError msg)
              \<and> exit_status (main pf (start fs0)) = 1
              \<and> console (trace (snd (main pf (start fs0)))) = creating_line (flavour pf)"
    using assms by (simp add: main_launch_failed)
  from a b c d show ?thesis by blast
qed

theorem tool_failure_reported_witness:
  "kernel_built kernel_path \<noteq> None
   \<and> spawn builder_fails (build_cmd (flavour builder_fails)) None kernel_built
       = Exited 101 (Some []) (Some ''error: no such command'') kernel_built
   \<and> exit_status (main builder_fails (start kernel_built)) = 1
   \<and> console (trace (snd (main builder_fails (start kernel_built))))
       = creating_line Posix @ ''Error creating boot image: ''
           @ str_called_process_error
               (CalledProcessError 101 (build_cmd Posix) [] ''error: no such command'')
           @ ''\<newline>error: no such command\<newline>''
   \<and> spawn builder_garbled (build_cmd (flavour builder_garbled)) None kernel_built
       = Exited 101 (Some []) None kernel_built
   \<and> fst (main builder_garbled (start kernel_built)) = Inl UnicodeDecodeError
   \<and> spawn no_cargo (build_cmd (flavour no_cargo)) None kernel_built
       = LaunchFailed ''No such file or directory''
   \<and> exit_status (main no_cargo (start kernel_built)) = 1"
proof -
  have h: "kernel_built kernel_path \<noteq> None"
    by (rule kernel_built_facts)
  have e: "spawn builder_fails (build_cmd (flavour builder_fails)) None kernel_built
       = Exited 101 (Some []) (Some ''error: no such command'') kernel_built
     \<and> (101::int) \<noteq> 0
     \<and> stdout_accepts builder_fails (''Error creating boot image: ''
          @ exc_str builder_fails (CalledProcessError 101 (build_cmd (flavour builder_fails))
              [] ''error: no such command''))
     \<and> stdout_accepts builder_fails ''error: no such command''"
    by (simp add: builder_fails_def stdout_accepts_def)
  have g: "spawn builder_garbled (build_cmd (flavour builder_garbled)) None kernel_built
       = Exited 101 (Some []) None kernel_built"
    by (simp add: builder_garbled_def)
  have l: "spawn no_cargo (build_cmd (flavour no_cargo)) None kernel_built
       = LaunchFailed ''No such file or directory''"
    by (simp add: no_cargo_def)
  have a: "exit_status (main builder_fails (start kernel_built)) = 1
     \<and> console (trace (snd (main builder_fails (start kernel_built))))
         = creating_line (flavour builder_fails) @ ''Error creating boot image: ''
             @ exc_str builder_fails (CalledProcessError 101 (build_cmd (flavour builder_fails))
                 [] ''error: no such command'')
             @ ''\<newline>'' @ ''error: no such command'' @ ''\<newline>''"
    using tool_failure_reported [of kernel_built builder_fails] h e by blast
  have b: "fst (main builder_garbled (start kernel_built)) = Inl UnicodeDecodeError"
    using tool_failure_reported [of kernel_built builder_garbled] h g by blast
  have c: "exit_status (main no_cargo (start kernel_built)) = 1"
    using tool_failure_reported [of kernel_built no_cargo] h l by blast
  have x: "flavour builder_fails = Posix" "exc_str builder_fails = str_called_process_error"
    by (simp_all add: builder_fails_def)
  show ?thesis
    using h e g l a b c by (simp add: x)
qed

text \<open>
  C8, as stated, fails in both directions: on a standard output that encodes ASCII only, the
  kernel is there, the tool exits with status 0 and writes the image, yet the run dies of
  the \<open>UnicodeEncodeError\<close> of the success line (the check mark), exit status 1; and with a
  directory where the kernel should be, the run can end with exit status 0.
\<close>
theorem success_needs_printable_counterexample:
  "kernel_built kernel_path \<noteq> None
   \<and> spawn (ascii_stdout builder_ok) (build_cmd Posix) None kernel_built
       = Exited 0 (Some ''Created disk image'') (Some [])
           (kernel_built(output_path \<mapsto> File ''image''))
   \<and> (kernel_built(output_path \<mapsto> File ''image'')) output_path \<noteq> None
   \<and> fst (main (ascii_stdout builder_ok) (start kernel_built)) = Inl UnicodeEncodeError
   \<and> exit_status (main (ascii_stdout builder_ok) (start kernel_built)) = 1
   \<and> kernel_is_dir kernel_path = Some Dir
   \<and> exit_status (main builder_ok (start kernel_is_dir)) = 0"
proof -
  have f: "flavour (ascii_stdout builder_ok) = Posix" "flavour builder_ok = Posix"
    by (simp_all add: builder_ok_def ascii_stdout_def)
  have h: "spawn (ascii_stdout builder_ok) (build_cmd (flavour (ascii_stdout builder_ok)))
      None kernel_built
      = Exited 0 (Some ''Created disk image'') (Some [])
          (kernel_built(output_path \<mapsto> File ''image''))"
    by (simp add: builder_ok_def ascii_stdout_def)
  have n: "\<not> stdout_accepts (ascii_stdout builder_ok) (created_text Posix)"
    by (simp add: stdout_accepts_def ascii_stdout_def created_text_def check_mark_def)
  have a: "stdout_accepts (ascii_stdout builder_ok) ''Created disk image''"
    by (simp add: stdout_accepts_def)
  have m: "fst (main (ascii_stdout builder_ok) (start kernel_built)) = Inl UnicodeEncodeError"
    using main_tool_ok [OF kernel_built_facts(1) h] n a
    by (simp add: f)
  have me: "exit_status (main (ascii_stdout builder_ok) (start kernel_built)) = 1"
    using main_tool_ok [OF kernel_built_facts(1) h] n a
    by (simp add: f)
  have d: "kernel_is_dir kernel_path \<noteq> None"
    by (simp add: kernel_is_dir_def)
  have hd: "spawn builder_ok (build_cmd (flavour builder_ok)) None kernel_is_dir
      = Exited 0 (Some ''Created disk image'') (Some [])
          (kernel_is_dir(output_path \<mapsto> File ''image''))"
    by (simp add: builder_ok_def)
  have ad: "stdout_accepts builder_ok ''Created disk image''
      \<and> stdout_accepts builder_ok (created_text (flavour builder_ok))"
    by (simp add: stdout_accepts_def builder_ok_def)
  have md: "exit_status (main builder_ok (start kernel_is_dir)) = 0"
    using main_tool_ok [OF d hd] ad by simp
  have kd: "kernel_is_dir kernel_path = Some Dir"
    by (simp add: kernel_is_dir_def)
  show ?thesis
    using h m me md kd kernel_built_facts by (simp add: f)
qed

text \<open>
  C8, amended: the builder ends with exit status 0 exactly when something exists at the
  kernel path (a file or a directory), the external tool exits with status 0 and its output
  decodes, the image path exists after the tool has exited, and standard output can encode
  what is printed (the tool's output, its warnings, the success line with the check mark);
  in that case it has started the tool once and its last line is the success line with the
  image path. So an image that merely exists is never reported without a build step that
  exited with status 0 in the same run.
\<close>
theorem success_iff_built:
  "(exit_status (main pf (start fs0)) = 0
      \<longleftrightarrow> fs0 kernel_path \<noteq> None
          \<and> (\<exists>out err fs1.
                spawn pf (build_cmd (flavour pf)) None fs0 = Exited 0 (Some out) (Some err) fs1
                \<and> fs1 output_path \<noteq> None
                \<and> stdout_accepts pf out \<and> (err \<noteq> [] \<longrightarrow> stdout_accepts pf err)
                \<and> stdout_accepts pf (check_mark @ '' Boot image created: ''
                     @ str_path (flavour pf) output_path)))
   \<and> (\<forall>out err fs1.
         fs0 kernel_path \<noteq> None
         \<and> spawn pf (build_cmd (flavour pf)) None fs0 = Exited 0 (Some out) (Some err) fs1
         \<and> fs1 output_path \<noteq> None
         \<and> stdout_accepts pf out \<and> (err \<noteq> [] \<longrightarrow> stdout_accepts pf err)
         \<and> stdout_accepts pf (check_mark @ '' Boot image created: ''
              @ str_path (flavour pf) output_path)
         \<longrightarrow> fst (main pf (start fs0)) = Inr ()
           \<and> launches (trace (snd (main pf (start fs0)))) = [(build_cmd (flavour pf), None)]
           \<and> console (trace (snd (main pf (start fs0))))
               = creating_line (flavour pf) @ out @ ''\<newline>'' @ warnings_line err
                   @ check_mark @ '' Boot image created: ''
                   @ str_path (flavour pf) output_path @ ''\<newline>'')"
proof -
  have iff: "exit_status (main pf (start fs0)) = 0
      \<longleftrightarrow> fs0 kernel_path \<noteq> None
          \<and> (\<exists>out err fs1.
                spawn pf (build_cmd (flavour pf)) None fs0 = Exited 0 (Some out) (Some err) fs1
                \<and> fs1 output_path \<noteq> None
                \<and> stdout_accepts pf out \<and> (err \<noteq> [] \<longrightarrow> stdout_accepts pf err)
                \<and> stdout_accepts pf (check_mark @ '' Boot image created: ''
                     @ str_path (flavour pf) output_path))"
  proof (cases "fs0 kernel_path = None")
    case True
    then show ?thesis
      by (simp add: main_kernel_missing)
  next
    case False
    show ?thesis
    proof (cases "spawn pf (build_cmd (flavour pf)) None fs0")
      case (LaunchFailed msg)
      then show ?thesis
        using False by (simp add: main_launch_failed)
    next
      case (Exited rc out err fs1)
      show ?thesis
      proof (cases "out = None \<or> err = None")
        case True
        then show ?thesis
          using False Exited main_undecodable [OF False Exited] by auto
      next
        case dec: False
        then obtain out' err' where s: "out = Some out'" "err = Some err'"
          by auto
        show ?thesis
        proof (cases "rc = 0")
          case True
          then show ?thesis
            using False Exited s by (simp add: main_tool_ok created_text_def)
        next
          case nz: False
          then show ?thesis
            using False Exited s by (simp add: main_tool_failed)
        qed
      qed
    qed
  qed
  have out: "\<forall>out err fs1.
         fs0 kernel_path \<noteq> None
         \<and> spawn pf (build_cmd (flavour pf)) None fs0 = Exited 0 (Some out) (Some err) fs1
         \<and> fs1 output_path \<noteq> None
         \<and> stdout_accepts pf out \<and> (err \<noteq> [] \<longrightarrow> stdout_accepts pf err)
         \<and> stdout_accepts pf (check_mark @ '' Boot image created: ''
                     @ str_path (flavour pf) output_path)
         \<longrightarrow> fst (main pf (start fs0)) = Inr ()
           \<and> launches (trace (snd (main pf (start fs0)))) = [(build_cmd (flavour pf), None)]
           \<and> console (trace (snd (main pf (start fs0))))
               = creating_line (flavour pf) @ out @ ''\<newline>'' @ warnings_line err
                   @ check_mark @ '' Boot image created: ''
                   @ str_path (flavour pf) output_path @ ''\<newline>''"
    by (simp add: main_tool_ok created_text_def)
  from iff out show ?thesis
    by blast
qed

theorem success_iff_built_witness:
  "exit_status (main builder_ok (start kernel_built)) = 0
   \<and> console (trace (snd (main builder_ok (start kernel_built))))
       = creating_line Posix @ ''Created disk image\<newline>''
           @ check_mark @ '' Boot image created: target/x86_64-blog_os/debug/tiny_os.efi.img\<newline>''
   \<and> exit_status (main builder_silent (start (kernel_built(output_path \<mapsto> File ''stale''))))
       = 0
   \<and> exit_status (main builder_fails (start (kernel_built(output_path \<mapsto> File ''stale''))))
       \<noteq> 0"
proof -
  have k: "kernel_built kernel_path \<noteq> None
     \<and> spawn builder_ok (build_cmd (flavour builder_ok)) None kernel_built
         = Exited 0 (Some ''Created disk image'') (Some [])
             (kernel_built(output_path \<mapsto> File ''image''))
     \<and> (kernel_built(output_path \<mapsto> File ''image'')) output_path \<noteq> None
     \<and> stdout_accepts builder_ok ''Created disk image''
     \<and> ([] \<noteq> ([]::string) \<longrightarrow> stdout_accepts builder_ok [])
     \<and> stdout_accepts builder_ok (check_mark @ '' Boot image created: ''
          @ str_path (flavour builder_ok) output_path)"
    by (simp add: kernel_built_facts builder_ok_def stdout_accepts_def)
  have a: "exit_status (main builder_ok (start kernel_built)) = 0
     \<and> console (trace (snd (main builder_ok (start kernel_built))))
       = creating_line (flavour builder_ok) @ ''Created disk image'' @ ''\<newline>''
           @ warnings_line [] @ check_mark @ '' Boot image created: ''
           @ str_path (flavour builder_ok) output_path @ ''\<newline>''"
    using success_iff_built [of builder_ok kernel_built] k by blast
  have s: "(kernel_built(output_path \<mapsto> File ''stale'')) kernel_path \<noteq> None
     \<and> spawn builder_silent (build_cmd (flavour builder_silent)) None
           (kernel_built(output_path \<mapsto> File ''stale''))
         = Exited 0 (Some []) (Some []) (kernel_built(output_path \<mapsto> File ''stale''))
     \<and> (kernel_built(output_path \<mapsto> File ''stale'')) output_path \<noteq> None
     \<and> stdout_accepts builder_silent []
     \<and> ([] \<noteq> ([]::string) \<longrightarrow> stdout_accepts builder_silent [])
     \<and> stdout_accepts builder_silent (check_mark @ '' Boot image created: ''
          @ str_path (flavour builder_silent) output_path)"
    by (simp add: kernel_built_def builder_silent_def kernel_path_def output_path_def
        stdout_accepts_def)
  have b: "exit_status (main builder_silent (start (kernel_built(output_path \<mapsto> File ''stale''))))
       = 0"
    using success_iff_built [of builder_silent "kernel_built(output_path \<mapsto> File ''stale'')"] s
    by blast
  have f: "\<not> (\<exists>out err fs1. spawn builder_fails (build_cmd (flavour builder_fails)) None
           (kernel_built(output_path \<mapsto> File ''stale'')) = Exited 0 (Some out) (Some err) fs1
         \<and> fs1 output_path \<noteq> None
         \<and> stdout_accepts builder_fails out
         \<and> (err \<noteq> [] \<longrightarrow> stdout_accepts builder_fails err)
         \<and> stdout_accepts builder_fails (check_mark @ '' Boot image created: ''
              @ str_path (flavour builder_fails) output_path))"
    by (simp add: builder_fails_def)
  have c: "exit_status (main builder_fails (start (kernel_built(output_path \<mapsto> File ''stale''))))
       \<noteq> 0"
    using success_iff_built [of builder_fails "kernel_built(output_path \<mapsto> File ''stale'')"] f
    by blast
  show ?thesis
    using a b c
    by (simp add: builder_ok_def warnings_line_def str_path_def output_path_def path_sep_def)
qed

section \<open>The two scripts together\<close>

text \<open>
  C7, as stated, fails: the path the runner boots is not the path the builder produces and
  verifies, neither as written nor when the builder's relative path is taken under the
  runner's workspace; the file names differ.
\<close>
theorem image_paths_differ_counterexample:
  "bin_path Windows \<noteq> output_path
   \<and> parts (bin_path Windows) \<noteq> parts (workspace Windows) @ parts output_path
   \<and> last (parts (bin_path Windows)) = ''bootimage-tiny_os.bin''
   \<and> last (parts output_path) = ''tiny_os.efi.img''"
  by (simp add: bin_path_def output_path_def workspace_def joinpath_def)

text \<open>
  C7, amended: the runner hands the emulator the file \<open>bootimage-tiny_os.bin\<close> in the
  directory \<open>target/x86_64-blog_os/debug\<close> of its workspace. That is the directory the
  builder gives the external tool as output directory (when the builder is run from the
  workspace), but the builder verifies the file \<open>tiny_os.efi.img\<close> there: the two scripts
  name the same directory and different files, on either path flavour.
\<close>
theorem image_paths_same_directory:
  "''format=raw,file='' @ str_path fl (bin_path fl) \<in> set (cmd fl)
   \<and> parts (parent (bin_path fl)) = parts (workspace fl) @ parts (parent output_path)
   \<and> str_path fl (parent output_path) \<in> set (build_cmd fl)
   \<and> last (parts (bin_path fl)) = ''bootimage-tiny_os.bin''
   \<and> last (parts output_path) = ''tiny_os.efi.img''
   \<and> bin_path fl \<noteq> output_path
   \<and> parts (bin_path fl) \<noteq> parts (workspace fl) @ parts output_path"
  by (cases fl)
    (simp_all add: bin_path_def output_path_def workspace_def joinpath_def parent_def
      cmd_def build_cmd_def)

end
